theory Spec2Isabelle
  imports Main "HOL-Library.Word"
begin

section \<open>JavaScript values\<close>

text \<open>
  The browser script of the Granite front end (the page script that talks to
  \<^verbatim>\<open>/api/*\<close>) is embedded handler by handler.  The repository also holds an
  earlier mock of this script, which only stores the topic and redirects on timers
  and talks to no server; it is not embedded.  JavaScript strings are kept as byte
  strings in UTF-8, so the few non-ASCII characters of the script's literals are
  written out as their UTF-8 bytes.

  The values are those \<^verbatim>\<open>res.json()\<close> can give.  A number is an integer of 54 bits
  in two's complement (from \<open>-2^53\<close> to \<open>2^53 - 1\<close>): every such integer is a
  JavaScript number, and \<^verbatim>\<open>String\<close> prints it in full.  Other numbers and arrays
  are outside the model.  An object is the list of its own properties.
\<close>

datatype jsval =
    JUndefined
  | JNull
  | JBool bool
  | JNum "54 word"
  | JStr string
  | JObj "(string \<times> jsval) list"

text \<open>Truthiness, as used by \<^verbatim>\<open>!x\<close>, \<^verbatim>\<open>a || b\<close> and \<^verbatim>\<open>if (x)\<close>.\<close>

fun truthy :: "jsval \<Rightarrow> bool" where
  "truthy JUndefined = False"
| "truthy JNull = False"
| "truthy (JBool b) = b"
| "truthy (JNum n) = (n \<noteq> 0)"
| "truthy (JStr s) = (s \<noteq> [])"
| "truthy (JObj kv) = True"

definition js_or :: "jsval \<Rightarrow> jsval \<Rightarrow> jsval" where
  "js_or a b = (if truthy a then a else b)"

text \<open>
  Strict equality \<^verbatim>\<open>===\<close>.  Objects are compared by identity; every object the
  script compares comes out of a fresh \<^verbatim>\<open>res.json()\<close>, so an object is never
  identical to the other operand.
\<close>

fun strict_eq :: "jsval \<Rightarrow> jsval \<Rightarrow> bool" where
  "strict_eq (JObj kv) b = False"
| "strict_eq a (JObj kv) = False"
| "strict_eq a b = (a = b)"

fun show_nat :: "nat \<Rightarrow> string" where
  "show_nat n =
     (if n < 10 then [''0123456789'' ! n]
      else show_nat (n div 10) @ [''0123456789'' ! (n mod 10)])"

declare show_nat.simps [simp del]

definition show_int :: "int \<Rightarrow> string" where
  "show_int i = (if i < 0 then ''-'' @ show_nat (nat (- i)) else show_nat (nat i))"

text \<open>
  \<^verbatim>\<open>String(v)\<close>, the conversion that a template literal applies to \<^verbatim>\<open>${v}\<close>, and
  that \<^verbatim>\<open>localStorage.setItem\<close>, \<^verbatim>\<open>new Error\<close> and the assignment to
  \<^verbatim>\<open>textContent\<close> apply to their argument.  It can throw: \<open>Inl\<close> is the message of
  the TypeError, \<open>Inr\<close> the string.  An object is converted by its \<^verbatim>\<open>toString\<close>
  method.  A parsed object inherits the one that answers \<^verbatim>\<open>[object Object]\<close>, unless
  it has an own property \<^verbatim>\<open>toString\<close>: that property is a parsed value, which is
  no function, and \<^verbatim>\<open>valueOf\<close> gives no primitive either, so the conversion throws
  (the message is V8's).
\<close>

fun to_string :: "jsval \<Rightarrow> string + string" where
  "to_string JUndefined = Inr ''undefined''"
| "to_string JNull = Inr ''null''"
| "to_string (JBool b) = Inr (if b then ''true'' else ''false'')"
| "to_string (JNum n) = Inr (show_int (sint n))"
| "to_string (JStr s) = Inr s"
| "to_string (JObj kv) =
     (if map_of kv ''toString'' = None then Inr ''[object Object]''
      else Inl ''Cannot convert object to primitive value'')"

text \<open>Whether the conversion to a string succeeds.\<close>

definition printable :: "jsval \<Rightarrow> bool" where
  "printable v = (case to_string v of Inl msg \<Rightarrow> False | Inr s \<Rightarrow> True)"

text \<open>
  Assigning a value to \<^verbatim>\<open>textContent\<close>: the attribute is a nullable DOM string,
  so \<^verbatim>\<open>null\<close> and \<^verbatim>\<open>undefined\<close> give the empty text, and every other value is
  converted to a string.
\<close>

fun dom_text :: "jsval \<Rightarrow> string + string" where
  "dom_text JUndefined = Inr []"
| "dom_text JNull = Inr []"
| "dom_text v = to_string v"

text \<open>
  Reading a property \<^verbatim>\<open>v.k\<close>.  On \<^verbatim>\<open>null\<close> and \<^verbatim>\<open>undefined\<close> the engine throws a
  TypeError (the message is V8's); a primitive has none of the properties the script
  reads.  A thrown exception is represented by its \<^verbatim>\<open>message\<close>, the only part of
  it the script uses.
\<close>

definition type_error :: "jsval \<Rightarrow> string \<Rightarrow> string" where
  "type_error v k =
     ''Cannot read properties of '' @ (if v = JNull then ''null'' else ''undefined'')
     @ '' (reading '' @ [CHR 0x27] @ k @ [CHR 0x27] @ '')''"

fun get_prop :: "jsval \<Rightarrow> string \<Rightarrow> string + jsval" where
  "get_prop JUndefined k = Inl (type_error JUndefined k)"
| "get_prop JNull k = Inl (type_error JNull k)"
| "get_prop (JObj kv) k = Inr (case map_of kv k of None \<Rightarrow> JUndefined | Some v \<Rightarrow> v)"
| "get_prop v k = Inr JUndefined"

text \<open>
  A sequence of statements, each of which either throws before it writes anything
  (\<open>Inl\<close>) or has its effects (\<open>Inr\<close>): the effects up to the first throw, and the
  message thrown, if any.
\<close>

fun in_sequence :: "(string + 'e list) list \<Rightarrow> 'e list \<times> string option" where
  "in_sequence [] = ([], None)"
| "in_sequence (Inl msg # rest) = ([], Some msg)"
| "in_sequence (Inr es # rest) = (es @ fst (in_sequence rest), snd (in_sequence rest))"

section \<open>String trimming\<close>

text \<open>
  \<^verbatim>\<open>String.prototype.trim\<close> removes white space and line terminators from both
  ends.  The list gives the UTF-8 encodings of the code points it removes:
  U+0009 to U+000D, U+0020, U+00A0, U+1680, U+2000 to U+200A, U+2028, U+2029,
  U+202F, U+205F, U+3000 and U+FEFF.
\<close>

definition js_whitespace :: "string list" where
  "js_whitespace =
     [[CHR 0x09], [CHR 0x0A], [CHR 0x0B], [CHR 0x0C], [CHR 0x0D], [CHR 0x20],
      [CHR 0xC2, CHR 0xA0],
      [CHR 0xE1, CHR 0x9A, CHR 0x80],
      [CHR 0xE2, CHR 0x80, CHR 0x80], [CHR 0xE2, CHR 0x80, CHR 0x81],
      [CHR 0xE2, CHR 0x80, CHR 0x82], [CHR 0xE2, CHR 0x80, CHR 0x83],
      [CHR 0xE2, CHR 0x80, CHR 0x84], [CHR 0xE2, CHR 0x80, CHR 0x85],
      [CHR 0xE2, CHR 0x80, CHR 0x86], [CHR 0xE2, CHR 0x80, CHR 0x87],
      [CHR 0xE2, CHR 0x80, CHR 0x88], [CHR 0xE2, CHR 0x80, CHR 0x89],
      [CHR 0xE2, CHR 0x80, CHR 0x8A],
      [CHR 0xE2, CHR 0x80, CHR 0xA8], [CHR 0xE2, CHR 0x80, CHR 0xA9],
      [CHR 0xE2, CHR 0x80, CHR 0xAF],
      [CHR 0xE2, CHR 0x81, CHR 0x9F],
      [CHR 0xE3, CHR 0x80, CHR 0x80],
      [CHR 0xEF, CHR 0xBB, CHR 0xBF]]"

definition ws_prefix_len :: "string \<Rightarrow> nat" where
  "ws_prefix_len s =
     (case List.find (\<lambda>w. take (length w) s = w) js_whitespace of
        None \<Rightarrow> 0
      | Some w \<Rightarrow> length w)"

definition ws_suffix_len :: "string \<Rightarrow> nat" where
  "ws_suffix_len s =
     (case List.find (\<lambda>w. length w \<le> length s \<and> drop (length s - length w) s = w) js_whitespace of
        None \<Rightarrow> 0
      | Some w \<Rightarrow> length w)"

function trimStart :: "string \<Rightarrow> string" where
  "trimStart s = (if ws_prefix_len s = 0 then s else trimStart (drop (ws_prefix_len s) s))"
  by pat_completeness auto
termination
proof (relation "measure length")
  show "wf (measure length)" by simp
next
  fix s :: string
  assume pos: "ws_prefix_len s \<noteq> 0"
  have "ws_prefix_len [] = 0"
    by (simp add: ws_prefix_len_def js_whitespace_def)
  with pos have "s \<noteq> []" by auto
  with pos show "(drop (ws_prefix_len s) s, s) \<in> measure length" by simp
qed

function trimEnd :: "string \<Rightarrow> string" where
  "trimEnd s = (if ws_suffix_len s = 0 then s else trimEnd (take (length s - ws_suffix_len s) s))"
  by pat_completeness auto
termination
proof (relation "measure length")
  show "wf (measure length)" by simp
next
  fix s :: string
  assume pos: "ws_suffix_len s \<noteq> 0"
  have "ws_suffix_len [] = 0"
    by (simp add: ws_suffix_len_def js_whitespace_def)
  with pos have "s \<noteq> []" by auto
  with pos show "(take (length s - ws_suffix_len s) s, s) \<in> measure length" by simp
qed

declare trimStart.simps [simp del]
declare trimEnd.simps [simp del]

definition trim :: "string \<Rightarrow> string" where
  "trim s = trimEnd (trimStart s)"

section \<open>Effects of the page script\<close>

text \<open>
  Every handler is a function from what it reads (the DOM elements that exist, the
  script's variables, \<^verbatim>\<open>localStorage\<close>, the reply of the server) to the list of
  its effects in program order.  A reply of \<^verbatim>\<open>fetch\<close> is either a rejection
  (a transport error, with its message) or a response with its HTTP status and the
  outcome of \<^verbatim>\<open>res.json()\<close>: \<open>Inl\<close> the message of the parse error, \<open>Inr\<close> the
  parsed value.
\<close>

record js_file =
  file_name :: string
  file_size :: nat

datatype form_value = FileField js_file | TextField string

datatype http_request =
    GET string
  | POST string "(string \<times> form_value) list"

datatype fetch_result =
    NetworkFailure string
  | Response nat "string + jsval"

datatype callback = PollStatus | GotoOutput

datatype target =
    GenerateBtn
  | Elem string
  | StepBadge string
  | StepTitle string
  | StepDesc string

datatype event =
    Alert string
  | ConsoleError string
  | Request http_request
  | StorageSet string string
  | Navigate string
  | SetTimeout callback nat
  | TerminalLine string string bool
  | DomWrite target string string

text \<open>\<^verbatim>\<open>res.ok\<close>: the status is in the range 200 to 299.\<close>

definition res_ok :: "nat \<Rightarrow> bool" where
  "res_ok code = (200 \<le> code \<and> code \<le> 299)"

text \<open>\<^verbatim>\<open>API_BASE\<close>, from \<^verbatim>\<open>window.location.protocol\<close>.\<close>

definition API_BASE :: "string \<Rightarrow> string" where
  "API_BASE protocol = (if protocol = ''file:'' then ''http://localhost:8000'' else [])"

text \<open>\<^verbatim>\<open>localStorage\<close> after the \<^verbatim>\<open>setItem\<close> calls of a list of effects.\<close>

fun storage_after :: "event list \<Rightarrow> (string \<rightharpoonup> string) \<Rightarrow> (string \<rightharpoonup> string)" where
  "storage_after [] st = st"
| "storage_after (StorageSet k v # es) st = storage_after es (st(k \<mapsto> v))"
| "storage_after (e # es) st = storage_after es st"

text \<open>
  The URLs a list of effects makes the browser request: those of \<^verbatim>\<open>fetch\<close> and of
  a followed download link, and the \<^verbatim>\<open>src\<close> given to the video element.
\<close>

fun requested_urls :: "event list \<Rightarrow> string list" where
  "requested_urls [] = []"
| "requested_urls (Request (GET u) # es) = u # requested_urls es"
| "requested_urls (Request (POST u body) # es) = u # requested_urls es"
| "requested_urls (DomWrite t p v # es) =
     (if p = ''src'' then v # requested_urls es else requested_urls es)"
| "requested_urls (e # es) = requested_urls es"

text \<open>The requests a list of effects sends with \<^verbatim>\<open>fetch\<close>.\<close>

fun sent_requests :: "event list \<Rightarrow> http_request list" where
  "sent_requests [] = []"
| "sent_requests (Request r # es) = r # sent_requests es"
| "sent_requests (e # es) = sent_requests es"

section \<open>Create page: the Generate button\<close>

text \<open>
  What the click handler reads: the value of \<^verbatim>\<open>#topic-description\<close> (\<open>None\<close> when
  the element is missing) and the first chosen file of the file input (\<open>None\<close> when
  there is no input or no file).
\<close>

record create_page =
  topic_description :: "string option"
  chosen_file :: "js_file option"

text \<open>The two markups of the button; white space between the tags is left out.\<close>

definition loading_html :: string where
  \<open>loading_html =
     ''<div class="loader" style="width:24px;height:24px;border-width:3px;"></div><span>Starting Pipeline...</span>''\<close>

definition generate_html :: string where
  \<open>generate_html = ''Generate Video<span class="material-icons text-4xl">bolt</span>''\<close>

definition form_data :: "js_file option \<Rightarrow> string \<Rightarrow> (string \<times> form_value) list" where
  "form_data file description =
     (case file of None \<Rightarrow> [] | Some f \<Rightarrow> [(''file'', FileField f)])
     @ (if description \<noteq> [] then [(''description'', TextField description)] else [])"

text \<open>
  The part of the \<^verbatim>\<open>try\<close> block after \<^verbatim>\<open>await fetch\<close>: \<open>Inl\<close> the message of the
  exception thrown, \<open>Inr\<close> the effects of the path that ends in the redirect.
  Nothing is written before a throw (the first \<^verbatim>\<open>setItem\<close> is the last statement
  that can throw), so the exceptional result carries no effects.  \<^verbatim>\<open>new Error(m)\<close>
  and \<^verbatim>\<open>setItem(k, v)\<close> convert their argument to a string, which can throw too.
  A storage that is full or switched off is not modelled.
\<close>

definition after_submit :: "js_file option \<Rightarrow> string \<Rightarrow> fetch_result \<Rightarrow> string + event list" where
  "after_submit file description reply =
     (case reply of
        NetworkFailure msg \<Rightarrow> Inl msg
      | Response code body \<Rightarrow>
          if \<not> res_ok code then
            (case body of
               Inl msg \<Rightarrow> Inl msg
             | Inr err \<Rightarrow>
                 (case get_prop err ''detail'' of
                    Inl msg \<Rightarrow> Inl msg
                  | Inr detail \<Rightarrow>
                      (case to_string (js_or detail (JStr ''Failed to start pipeline'')) of
                         Inl msg \<Rightarrow> Inl msg
                       | Inr text \<Rightarrow> Inl text)))
          else
            (case body of
               Inl msg \<Rightarrow> Inl msg
             | Inr data \<Rightarrow>
                 (case get_prop data ''job_id'' of
                    Inl msg \<Rightarrow> Inl msg
                  | Inr jobId \<Rightarrow>
                      (case to_string jobId of
                         Inl msg \<Rightarrow> Inl msg
                       | Inr stored \<Rightarrow>
                           Inr ([StorageSet ''graniteJobId'' stored,
                                 StorageSet ''currentProjectTopic''
                                   (if description \<noteq> [] then description
                                    else (case file of
                                            Some f \<Rightarrow>
                                              if file_name f \<noteq> [] then file_name f
                                              else ''Generated Video''
                                          | None \<Rightarrow> ''Generated Video''))]
                                @ (case file of
                                     Some f \<Rightarrow> [StorageSet ''graniteFileName'' (file_name f)]
                                   | None \<Rightarrow> [])
                                @ [Navigate ''process.html''])))))"

text \<open>
  The local \<^verbatim>\<open>description\<close>: the trimmed value of the text area, and the empty
  string when there is no text area.
\<close>

definition description_of :: "create_page \<Rightarrow> string" where
  "description_of page = (case topic_description page of None \<Rightarrow> [] | Some v \<Rightarrow> trim v)"

definition generate_click :: "string \<Rightarrow> create_page \<Rightarrow> fetch_result \<Rightarrow> event list" where
  "generate_click base page reply =
     (let description = description_of page;
          file = chosen_file page
      in if file = None \<and> description = [] then
           [Alert ''Please upload a PDF document or enter a topic description.'']
         else
           [DomWrite GenerateBtn ''disabled'' ''true'',
            DomWrite GenerateBtn ''innerHTML'' loading_html,
            Request (POST (base @ ''/api/generate'') (form_data file description))]
           @ (case after_submit file description reply of
                Inr effects \<Rightarrow> effects
              | Inl msg \<Rightarrow>
                  [Alert (''Error: '' @ msg),
                   DomWrite GenerateBtn ''disabled'' ''false'',
                   DomWrite GenerateBtn ''innerHTML'' generate_html]))"

text \<open>
  Whether the button is disabled after a list of effects, given whether it was
  before.
\<close>

fun button_disabled :: "event list \<Rightarrow> bool \<Rightarrow> bool" where
  "button_disabled [] b = b"
| "button_disabled (DomWrite GenerateBtn p v # es) b =
     (if p = ''disabled'' then button_disabled es (v = ''true'') else button_disabled es b)"
| "button_disabled (e # es) b = button_disabled es b"

text \<open>A page with a text area holding a topic and no file, and an empty page.\<close>

definition topic_page :: create_page where
  "topic_page = \<lparr>topic_description = Some ''  explain photosynthesis '', chosen_file = None\<rparr>"

definition blank_page :: create_page where
  "blank_page = \<lparr>topic_description = Some [CHR 0x20, CHR 0x0A, CHR 0xC2, CHR 0xA0], chosen_file = None\<rparr>"

section \<open>Process page: pipeline status\<close>

definition stepIds :: "string list" where
  "stepIds =
     [''step-extraction'', ''step-planning'', ''step-animation'',
      ''step-narration'', ''step-composition'', ''step-quality'']"

definition stepNames :: "string list" where
  "stepNames =
     [''extraction'', ''planning'', ''animation'', ''narration'', ''composition'', ''quality'']"

definition stepLabels :: "string list" where
  "stepLabels =
     [''Extracting content from document'',
      ''Planning lesson structure'',
      ''Generating Manim animation'',
      ''Creating narration audio'',
      ''Composing final video'',
      ''Quality checking output'']"

text \<open>The non-ASCII characters of the script's messages, in UTF-8.\<close>

definition em_dash :: string where
  "em_dash = [CHR 0xE2, CHR 0x80, CHR 0x94]"

definition check_mark :: string where
  "check_mark = [CHR 0xE2, CHR 0x9C, CHR 0x93]"

definition check_box :: string where
  "check_box = [CHR 0xE2, CHR 0x9C, CHR 0x85]"

text \<open>
  \<^verbatim>\<open>stepNames.indexOf(v)\<close>: the first position whose name is strictly equal to
  \<open>v\<close>, and \<open>-1\<close> when there is none.
\<close>

fun indexOf :: "string list \<Rightarrow> jsval \<Rightarrow> int" where
  "indexOf [] v = - 1"
| "indexOf (x # xs) v =
     (if strict_eq (JStr x) v then 0
      else (let i = indexOf xs v in if i < 0 then - 1 else i + 1))"

definition padStart :: "nat \<Rightarrow> char \<Rightarrow> string \<Rightarrow> string" where
  "padStart n c s = replicate (n - length s) c @ s"

text \<open>
  The elements of the page the script looks up; a lookup that finds nothing makes
  the script skip the write.  For a step row, which of its badge, title and
  description exist; the three are taken to be distinct elements.
\<close>

record step_parts =
  has_badge :: bool
  has_title :: bool
  has_desc :: bool

record process_dom =
  terminal_log :: bool
  terminal_container :: bool
  source_hash :: bool
  top_progress_bar :: bool
  frame_progress_bar :: bool
  progress_label :: bool
  stage_badge :: bool
  status_label :: bool
  step_element :: "string \<Rightarrow> step_parts option"

text \<open>The variables \<^verbatim>\<open>lastStep\<close> and \<^verbatim>\<open>pollCount\<close> of the page.\<close>

record poll_vars =
  lastStep :: jsval
  pollCount :: nat

text \<open>
  \<^verbatim>\<open>addTerminalLine(tag, message, isSuccess)\<close> appends one line to the terminal log
  (and scrolls to it) when the log and its container exist.  The time stamp of the
  line, read from the clock, is not part of the model.
\<close>

definition addTerminalLine :: "process_dom \<Rightarrow> string \<Rightarrow> string \<Rightarrow> bool \<Rightarrow> event list" where
  "addTerminalLine doc tag message isSuccess =
     (if \<not> terminal_log doc then []
      else if \<not> terminal_container doc then []
      else [TerminalLine tag message isSuccess])"

definition success_badge_class :: string where
  "success_badge_class =
     ''px-3 py-1 bg-primary-neon/10 text-primary-neon text-[9px] font-bold uppercase tracking-widest rounded-pill border border-primary-neon/20''"

definition undim :: "string \<Rightarrow> event list" where
  "undim ident =
     [DomWrite (Elem ident) ''classList.remove'' ''opacity-50 grayscale'',
      DomWrite (Elem ident) ''style.opacity'' ''1'',
      DomWrite (Elem ident) ''style.filter'' ''none'']"

definition processing_html :: string where
  \<open>processing_html =
     ''<span class="w-1.5 h-1.5 bg-black rounded-full animate-ping"></span> Processing''\<close>

text \<open>The body of the \<^verbatim>\<open>forEach\<close> of \<^verbatim>\<open>updatePipelineStep\<close> for one step row.\<close>

definition update_step_row :: "process_dom \<Rightarrow> int \<Rightarrow> string \<Rightarrow> nat \<Rightarrow> event list" where
  "update_step_row doc currentIdx ident idx =
     (case step_element doc ident of
        None \<Rightarrow> []
      | Some parts \<Rightarrow>
          if int idx < currentIdx then
            undim ident
            @ (if has_badge parts then
                 [DomWrite (StepBadge ident) ''className'' success_badge_class,
                  DomWrite (StepBadge ident) ''textContent'' ''Success'']
               else [])
            @ (if has_title parts then
                 [DomWrite (StepTitle ident) ''className''
                    ''text-sm font-bold tracking-wider text-white uppercase'']
               else [])
            @ (if has_desc parts then
                 [DomWrite (StepDesc ident) ''className'' ''text-[10px] text-zinc-500 font-mono'',
                  DomWrite (StepDesc ident) ''textContent''
                    (stepLabels ! idx @ '' '' @ em_dash @ '' done '' @ check_mark)]
               else [])
          else if int idx = currentIdx then
            undim ident
            @ (if has_badge parts then
                 [DomWrite (StepBadge ident) ''className''
                    ''inline-flex items-center gap-2 px-3 py-1 bg-white text-black text-[9px] font-black uppercase tracking-widest rounded-pill'',
                  DomWrite (StepBadge ident) ''innerHTML'' processing_html]
               else [])
            @ (if has_title parts then
                 [DomWrite (StepTitle ident) ''className''
                    ''text-lg font-bold tracking-tight text-white uppercase italic'']
               else [])
            @ (if has_desc parts then
                 [DomWrite (StepDesc ident) ''className''
                    ''text-xs text-primary-neon font-mono animate-pulse'',
                  DomWrite (StepDesc ident) ''textContent'' (stepLabels ! idx @ ''...'')]
               else [])
          else [])"

definition updatePipelineStep :: "process_dom \<Rightarrow> jsval \<Rightarrow> event list" where
  "updatePipelineStep doc currentStep =
     (let currentIdx = indexOf stepNames currentStep
      in if currentIdx < 0 then []
         else concat (map (\<lambda>(ident, idx). update_step_row doc currentIdx ident idx)
                          (zip stepIds [0 ..< length stepIds])))"

text \<open>
  The block of \<^verbatim>\<open>pollStatus\<close> under the comment "Update pipeline steps
  visualization": the new variables and the effects.
\<close>

definition update_visualization :: "process_dom \<Rightarrow> poll_vars \<Rightarrow> jsval \<Rightarrow> poll_vars \<times> event list" where
  "update_visualization doc vars current_step =
     (if \<not> strict_eq current_step (lastStep vars) \<and> \<not> strict_eq current_step (JStr ''queued'') then
        (vars\<lparr>lastStep := current_step\<rparr>,
         updatePipelineStep doc current_step
         @ (let stepIdx = indexOf stepNames current_step
            in if 0 \<le> stepIdx then
                 addTerminalLine doc ''Pipeline'' (stepLabels ! nat stepIdx @ ''...'') False
               else [])
         @ (if truthy (lastStep vars) \<and> \<not> strict_eq (lastStep vars) (JStr ''queued'') then
              (let prevIdx = indexOf stepNames (lastStep vars)
               in if 0 \<le> prevIdx then
                    addTerminalLine doc ''Success''
                      (stepLabels ! nat prevIdx @ '' '' @ em_dash @ '' completed'') True
                  else [])
            else []))
      else (vars, []))"

text \<open>
  The writes of the progress bars, of the stage badge and of the status label.  Each
  converts a value of the status to a string first, so each either throws before it
  writes (\<open>Inl\<close>) or writes (\<open>Inr\<close>); an element that is missing is skipped, value
  and all.
\<close>

definition update_progress :: "process_dom \<Rightarrow> jsval \<Rightarrow> string + event list" where
  "update_progress doc progress =
     (if \<not> top_progress_bar doc \<and> \<not> frame_progress_bar doc \<and> \<not> progress_label doc then Inr []
      else
        (case to_string progress of
           Inl msg \<Rightarrow> Inl msg
         | Inr text \<Rightarrow>
             Inr ((if top_progress_bar doc then
                     [DomWrite (Elem ''top-progress-bar'') ''style.width'' (text @ ''%'')]
                   else [])
                  @ (if frame_progress_bar doc then
                       [DomWrite (Elem ''frame-progress-bar'') ''style.width'' (text @ ''%'')]
                     else [])
                  @ (if progress_label doc then
                       [DomWrite (Elem ''progress-label'') ''textContent'' (text @ ''%'')]
                     else []))))"

definition stage_badge_text :: "jsval \<Rightarrow> string + string" where
  "stage_badge_text current_step =
     (let stepIdx = indexOf stepNames current_step
      in if 0 \<le> stepIdx then Inr (''Stage '' @ padStart 2 (CHR ''0'') (show_int (stepIdx + 1)))
         else dom_text current_step)"

definition write_stage_badge :: "process_dom \<Rightarrow> jsval \<Rightarrow> string + event list" where
  "write_stage_badge doc current_step =
     (if stage_badge doc then
        (case stage_badge_text current_step of
           Inl msg \<Rightarrow> Inl msg
         | Inr text \<Rightarrow> Inr [DomWrite (Elem ''stage-badge'') ''textContent'' text])
      else Inr [])"

definition write_status_label :: "process_dom \<Rightarrow> jsval \<Rightarrow> string + event list" where
  "write_status_label doc message =
     (if status_label doc then
        (case dom_text (js_or message (JStr ''Processing...'')) of
           Inl msg \<Rightarrow> Inl msg
         | Inr text \<Rightarrow> Inr [DomWrite (Elem ''status-label'') ''textContent'' text])
      else Inr [])"

text \<open>The \<^verbatim>\<open>forEach\<close> that marks every step row complete.\<close>

definition mark_all_complete :: "process_dom \<Rightarrow> event list" where
  "mark_all_complete doc =
     concat (map (\<lambda>ident.
                    case step_element doc ident of
                      None \<Rightarrow> []
                    | Some parts \<Rightarrow>
                        undim ident
                        @ (if has_badge parts then
                             [DomWrite (StepBadge ident) ''className'' success_badge_class,
                              DomWrite (StepBadge ident) ''textContent'' ''Success'']
                           else []))
                 stepIds)"

text \<open>
  The check of the terminal states, and the timer that continues polling.  The
  failed branch builds its line from the error (or else the message) before it
  writes anything, and that conversion can throw.
\<close>

definition check_terminal :: "process_dom \<Rightarrow> jsval \<Rightarrow> jsval \<Rightarrow> jsval \<Rightarrow> string + event list" where
  "check_terminal doc status err message =
     (if strict_eq status (JStr ''completed'') then
        Inr (addTerminalLine doc ''Success'' (''Pipeline completed successfully! '' @ check_box) True
             @ mark_all_complete doc
             @ [SetTimeout GotoOutput 2000])
      else if strict_eq status (JStr ''failed'') then
        (case to_string (js_or err message) of
           Inl msg \<Rightarrow> Inl msg
         | Inr text \<Rightarrow>
             Inr (addTerminalLine doc ''Error'' (''Pipeline failed: '' @ text) False
                  @ (if status_label doc then
                       [DomWrite (Elem ''status-label'') ''textContent'' ''PIPELINE FAILED'']
                     else [])
                  @ (if stage_badge doc then
                       [DomWrite (Elem ''stage-badge'') ''textContent'' ''Failed'',
                        DomWrite (Elem ''stage-badge'') ''className''
                          ''px-3 py-1 bg-red-500/10 text-red-400 text-[10px] font-bold uppercase tracking-widest rounded-pill border border-red-500/20'']
                     else [])))
      else Inr [SetTimeout PollStatus 3000])"

text \<open>
  A property of the parsed status, for a value that is neither \<^verbatim>\<open>null\<close> nor
  \<^verbatim>\<open>undefined\<close>.
\<close>

definition read_prop :: "jsval \<Rightarrow> string \<Rightarrow> jsval" where
  "read_prop data k = (case get_prop data k of Inl msg \<Rightarrow> JUndefined | Inr v \<Rightarrow> v)"

text \<open>
  The first property \<^verbatim>\<open>pollStatus\<close> reads from the parsed status: which one
  depends on the elements that exist, since a missing element skips its read.
\<close>

definition first_read :: "process_dom \<Rightarrow> string" where
  "first_read doc =
     (if top_progress_bar doc \<or> frame_progress_bar doc \<or> progress_label doc then ''progress''
      else if stage_badge doc then ''current_step''
      else if status_label doc then ''message''
      else ''current_step'')"

text \<open>The \<^verbatim>\<open>catch\<close> block of \<^verbatim>\<open>pollStatus\<close>.\<close>

definition poll_catch :: "process_dom \<Rightarrow> string \<Rightarrow> event list" where
  "poll_catch doc msg =
     [ConsoleError (''Poll error: '' @ msg)]
     @ addTerminalLine doc ''Warn'' (''Connection issue: '' @ msg @ ''. Retrying...'') False
     @ [SetTimeout PollStatus 5000]"

text \<open>
  The three writes in the order of the script: their effects up to the first throw,
  and the message thrown, if any.
\<close>

definition status_writes :: "process_dom \<Rightarrow> jsval \<Rightarrow> event list \<times> string option" where
  "status_writes doc data =
     in_sequence
       [update_progress doc (read_prop data ''progress''),
        write_stage_badge doc (read_prop data ''current_step''),
        write_status_label doc (read_prop data ''message'')]"

text \<open>
  The \<^verbatim>\<open>try\<close> block of \<^verbatim>\<open>pollStatus\<close> from \<^verbatim>\<open>pollCount++\<close> on, for the parsed
  status: the variables and the effects at the end of the block or at the throw, and
  the message thrown, if any.  A status that is \<^verbatim>\<open>null\<close> or \<^verbatim>\<open>undefined\<close> throws at
  the first read of a property, before any write.  Otherwise the writes of the
  progress, the badge and the label come first, and a throw in one of them leaves
  the block with the writes made so far; then the visualization block, which cannot
  throw; then the check of the terminal states.
\<close>

definition poll_try ::
  "process_dom \<Rightarrow> poll_vars \<Rightarrow> jsval \<Rightarrow> poll_vars \<times> event list \<times> string option" where
  "poll_try doc vars data =
     (let vars1 = vars\<lparr>pollCount := pollCount vars + 1\<rparr>
      in if data = JNull \<or> data = JUndefined then
           (vars1, [], Some (type_error data (first_read doc)))
         else
           (let writes = status_writes doc data
            in case snd writes of
                 Some msg \<Rightarrow> (vars1, fst writes, Some msg)
               | None \<Rightarrow>
                   (let (vars2, step_effects) =
                          update_visualization doc vars1 (read_prop data ''current_step'')
                    in case check_terminal doc (read_prop data ''status'') (read_prop data ''error'')
                              (read_prop data ''message'') of
                         Inl msg \<Rightarrow> (vars2, fst writes @ step_effects, Some msg)
                       | Inr final \<Rightarrow> (vars2, fst writes @ step_effects @ final, None))))"

text \<open>
  \<^verbatim>\<open>pollStatus\<close>, given the reply its \<^verbatim>\<open>fetch\<close> gets.  Whatever is thrown inside
  the \<^verbatim>\<open>try\<close> block is caught: the effects of the \<^verbatim>\<open>catch\<close> block follow those
  the block had before the throw.
\<close>

definition pollStatus ::
  "string \<Rightarrow> string \<Rightarrow> process_dom \<Rightarrow> poll_vars \<Rightarrow> fetch_result \<Rightarrow> poll_vars \<times> event list" where
  "pollStatus base jobId doc vars reply =
     (let request = Request (GET (base @ ''/api/status/'' @ jobId))
      in case reply of
           NetworkFailure msg \<Rightarrow> (vars, request # poll_catch doc msg)
         | Response code body \<Rightarrow>
             if \<not> res_ok code then
               (if code = 404 then
                  (vars,
                   request
                   # addTerminalLine doc ''Warn''
                       ''Job not found on server (possible restart). Retrying...'' False
                   @ [SetTimeout PollStatus 5000])
                else (vars, request # poll_catch doc (''Status check failed: '' @ show_nat code)))
             else
               (case body of
                  Inl msg \<Rightarrow> (vars, request # poll_catch doc msg)
                | Inr data \<Rightarrow>
                    (case poll_try doc vars data of
                       (vars2, effects, None) \<Rightarrow> (vars2, request # effects)
                     | (vars2, effects, Some msg) \<Rightarrow>
                         (vars2, request # effects @ poll_catch doc msg))))"


text \<open>
  Loading the process page: without a stored job id it redirects to the create
  page; otherwise it shows the file name and starts polling after one second.
  The result holds the job id the page polls for.
\<close>

definition process_load :: "(string \<rightharpoonup> string) \<Rightarrow> process_dom \<Rightarrow> string option \<times> event list" where
  "process_load storage doc =
     (case storage ''graniteJobId'' of
        None \<Rightarrow> (None, [Navigate ''create.html''])
      | Some jobId \<Rightarrow>
          if jobId = [] then (None, [Navigate ''create.html''])
          else
            (Some jobId,
             (if source_hash doc then
                [DomWrite (Elem ''source-hash'') ''textContent''
                   (case storage ''graniteFileName'' of
                      None \<Rightarrow> em_dash
                    | Some n \<Rightarrow> if n = [] then em_dash else n)]
              else [])
             @ addTerminalLine doc ''System'' ''Connected to Granite pipeline server'' False
             @ addTerminalLine doc ''System'' (''Job ID: '' @ jobId) False
             @ [SetTimeout PollStatus 1000]))"

text \<open>
  The timers a list of effects sets, and the delays of those that call
  \<^verbatim>\<open>pollStatus\<close>.
\<close>

fun timers :: "event list \<Rightarrow> (callback \<times> nat) list" where
  "timers [] = []"
| "timers (SetTimeout c delay # es) = (c, delay) # timers es"
| "timers (e # es) = timers es"

definition poll_timers :: "event list \<Rightarrow> nat list" where
  "poll_timers es = map snd (filter (\<lambda>t. fst t = PollStatus) (timers es))"

text \<open>The lines a list of effects appends to the terminal log under a given tag.\<close>

fun terminal_lines :: "string \<Rightarrow> event list \<Rightarrow> string list" where
  "terminal_lines tag [] = []"
| "terminal_lines tag (TerminalLine t message isSuccess # es) =
     (if t = tag then message # terminal_lines tag es else terminal_lines tag es)"
| "terminal_lines tag (e # es) = terminal_lines tag es"

text \<open>
  The polling loop as the timers drive it: \<^verbatim>\<open>pollStatus\<close> runs once per reply for
  as long as the run before it has set a timer for it.
\<close>

fun poll_run ::
  "string \<Rightarrow> string \<Rightarrow> process_dom \<Rightarrow> poll_vars \<Rightarrow> fetch_result list \<Rightarrow> poll_vars \<times> event list" where
  "poll_run base jobId doc vars [] = (vars, [])"
| "poll_run base jobId doc vars (reply # replies) =
     (let (vars1, effects) = pollStatus base jobId doc vars reply
      in if poll_timers effects = [] then (vars1, effects)
         else (let (vars2, more) = poll_run base jobId doc vars1 replies
               in (vars2, effects @ more)))"

section \<open>Output page\<close>

record output_dom =
  project_title :: bool
  prompt_display :: bool
  output_video :: bool
  video_loading :: bool
  download_btn :: bool

definition no_video_html :: string where
  \<open>no_video_html =
     ''<div class="flex flex-col items-center gap-4"><span class="material-icons text-4xl text-white/20">videocam_off</span><span class="text-sm font-mono text-white/40">No video available</span></div>''\<close>

text \<open>
  Loading the output page.  Giving the video element its \<^verbatim>\<open>src\<close> is what makes
  the browser request the video.  The two listeners put on the video element only
  change the loading overlay and are left out.
\<close>

definition output_load :: "string \<Rightarrow> (string \<rightharpoonup> string) \<Rightarrow> output_dom \<Rightarrow> event list" where
  "output_load base storage doc =
     (let jobId = storage ''graniteJobId'';
          topic = (case storage ''currentProjectTopic'' of
                     None \<Rightarrow> ''Generated Video''
                   | Some t \<Rightarrow> if t = [] then ''Generated Video'' else t)
      in (if project_title doc then [DomWrite (Elem ''project-title'') ''textContent'' topic] else [])
         @ (if prompt_display doc then
              [DomWrite (Elem ''prompt-display'') ''textContent''
                 (if topic \<noteq> [] then [CHR 0x22] @ topic @ [CHR 0x22] else ''No description provided'')]
            else [])
         @ (case jobId of
              Some j \<Rightarrow>
                if output_video doc \<and> j \<noteq> [] then
                  [DomWrite (Elem ''output-video'') ''src'' (base @ ''/api/video/'' @ j)]
                else if video_loading doc then
                  [DomWrite (Elem ''video-loading'') ''innerHTML'' no_video_html]
                else []
            | None \<Rightarrow>
                if video_loading doc then
                  [DomWrite (Elem ''video-loading'') ''innerHTML'' no_video_html]
                else []))"

text \<open>
  A click on the download button, whose handler exists when the button and a
  stored job id do: a link to the video is created and followed.
\<close>

definition download_click :: "string \<Rightarrow> (string \<rightharpoonup> string) \<Rightarrow> output_dom \<Rightarrow> event list" where
  "download_click base storage doc =
     (case storage ''graniteJobId'' of
        None \<Rightarrow> []
      | Some j \<Rightarrow>
          if download_btn doc \<and> j \<noteq> [] then [Request (GET (base @ ''/api/video/'' @ j))]
          else [])"

section \<open>Observations on effects\<close>

text \<open>The pages a list of effects navigates to.\<close>

fun navigations :: "event list \<Rightarrow> string list" where
  "navigations [] = []"
| "navigations (Navigate p # es) = p # navigations es"
| "navigations (e # es) = navigations es"

text \<open>
  Effects that only write to the page and make the browser request nothing: terminal
  lines, and DOM writes other than that of a \<^verbatim>\<open>src\<close>.
\<close>

fun page_write :: "event \<Rightarrow> bool" where
  "page_write (DomWrite t p v) = (p \<noteq> ''src'')"
| "page_write (TerminalLine tag message isSuccess) = True"
| "page_write e = False"

text \<open>Whether an effect writes to one of the step rows or to a part of one.\<close>

fun step_write :: "event \<Rightarrow> bool" where
  "step_write (DomWrite (Elem ident) p v) = (ident \<in> set stepIds)"
| "step_write (DomWrite (StepBadge ident) p v) = True"
| "step_write (DomWrite (StepTitle ident) p v) = True"
| "step_write (DomWrite (StepDesc ident) p v) = True"
| "step_write e = False"

text \<open>
  The text an element shows after a list of effects: the last \<^verbatim>\<open>textContent\<close>
  written to it, and \<open>None\<close> when none is written.
\<close>

fun shown_text :: "string \<Rightarrow> event list \<Rightarrow> string option" where
  "shown_text ident [] = None"
| "shown_text ident (e # es) =
     (case shown_text ident es of
        Some t \<Rightarrow> Some t
      | None \<Rightarrow>
          (case e of
             DomWrite (Elem i) p v \<Rightarrow> if i = ident \<and> p = ''textContent'' then Some v else None
           | _ \<Rightarrow> None))"

text \<open>
  The \<^verbatim>\<open>current_step\<close> a reply lets the page observe: that of the parsed body of
  a response with \<^verbatim>\<open>res.ok\<close>; a reply without one is not an observation.
\<close>

definition observed_step :: "fetch_result \<Rightarrow> jsval option" where
  "observed_step reply =
     (case reply of
        NetworkFailure msg \<Rightarrow> None
      | Response code body \<Rightarrow>
          if res_ok code then
            (case body of
               Inl msg \<Rightarrow> None
             | Inr data \<Rightarrow>
                 if data = JNull \<or> data = JUndefined then None
                 else Some (read_prop data ''current_step''))
          else None)"

text \<open>
  A status whose \<^verbatim>\<open>progress\<close>, \<^verbatim>\<open>current_step\<close>, \<^verbatim>\<open>message\<close> and \<^verbatim>\<open>error\<close>
  convert to strings, as the numbers, strings and absent fields of the status
  endpoint do.
\<close>

definition printable_status :: "jsval \<Rightarrow> bool" where
  "printable_status data =
     (printable (read_prop data ''progress'') \<and> printable (read_prop data ''current_step'')
      \<and> printable (read_prop data ''message'') \<and> printable (read_prop data ''error''))"




text \<open>A process page and an output page on which every element the script looks up exists.\<close>

definition full_process_dom :: process_dom where
  "full_process_dom =
     \<lparr>terminal_log = True, terminal_container = True, source_hash = True,
      top_progress_bar = True, frame_progress_bar = True, progress_label = True,
      stage_badge = True, status_label = True,
      step_element = (\<lambda>ident. if ident \<in> set stepIds
                                  then Some \<lparr>has_badge = True, has_title = True, has_desc = True\<rparr>
                                  else None)\<rparr>"

definition full_output_dom :: output_dom where
  "full_output_dom =
     \<lparr>project_title = True, prompt_display = True, output_video = True,
      video_loading = True, download_btn = True\<rparr>"

text \<open>
  Effects that stay on the page: they request nothing, navigate nowhere and store
  nothing.
\<close>

fun local_effect :: "event \<Rightarrow> bool" where
  "local_effect (SetTimeout c delay) = True"
| "local_effect (ConsoleError m) = True"
| "local_effect e = page_write e"

section \<open>The job pipeline behind the API\<close>

text \<open>
  The server side (job store, submission endpoint, orchestrator) is not among the
  sources; only its README is.  What is needed of it is modelled from the
  specification, each definition saying so.
\<close>

text \<open>
  Modelled from the spec: the stages of the Pipeline Definition (section 2: "the fixed
  ordered list of stages (extraction, planning, animation, narration, composition,
  quality)"); the server code that defines them is missing.
\<close>

datatype stage = Extraction | Planning | Animation | Narration | Composition | Quality

text \<open>
  Modelled from the spec: the Pipeline Definition, the "static ordered list of six
  stage descriptors" (section 3); the server's list is missing.
\<close>

definition pipeline :: "stage list" where
  "pipeline = [Extraction, Planning, Animation, Narration, Composition, Quality]"

text \<open>
  Modelled from the spec: \<^verbatim>\<open>currentStage\<close> is "one of the six pipeline stage names, or
  a sentinel queued before execution starts" (section 3); the server's job record is
  missing.
\<close>

datatype current_stage = QueuedStage | AtStage stage

text \<open>
  Modelled from the spec: the names under which the status endpoint reports
  \<^verbatim>\<open>current_step\<close>, "one of queued, extraction, planning, animation, narration,
  composition, quality" (section 6); the server's endpoint is missing.
\<close>

fun stage_name :: "stage \<Rightarrow> string" where
  "stage_name Extraction = ''extraction''"
| "stage_name Planning = ''planning''"
| "stage_name Animation = ''animation''"
| "stage_name Narration = ''narration''"
| "stage_name Composition = ''composition''"
| "stage_name Quality = ''quality''"

fun current_step_name :: "current_stage \<Rightarrow> string" where
  "current_step_name QueuedStage = ''queued''"
| "current_step_name (AtStage s) = stage_name s"

text \<open>
  Modelled from the spec: the index of \<^verbatim>\<open>currentStage\<close> in the fixed stage order
  (section 3, invariants).  The sentinel lies before the first stage, so it gets
  \<open>-1\<close>, as \<^verbatim>\<open>indexOf\<close> gives it in the client.
\<close>

fun position :: "stage list \<Rightarrow> stage \<Rightarrow> int" where
  "position [] s = - 1"
| "position (x # xs) s =
     (if x = s then 0 else (let i = position xs s in if i < 0 then - 1 else i + 1))"

fun stage_index :: "current_stage \<Rightarrow> int" where
  "stage_index QueuedStage = - 1"
| "stage_index (AtStage s) = position pipeline s"

text \<open>
  Modelled from the spec: the \<^verbatim>\<open>status\<close> of a job, "one of queued, running, completed,
  failed" (section 3); the server's job record is missing.
\<close>

datatype job_status = Queued | Running | Completed | Failed

text \<open>
  Modelled from the spec: the Job record of section 3, with the fields \<^verbatim>\<open>id\<close>,
  \<^verbatim>\<open>status\<close>, \<^verbatim>\<open>currentStage\<close>, \<^verbatim>\<open>progress\<close>, \<^verbatim>\<open>message\<close>, \<^verbatim>\<open>error\<close>, \<^verbatim>\<open>input\<close>,
  \<^verbatim>\<open>artifactRef\<close> and \<^verbatim>\<open>createdAt\<close>; the server's job record is missing.  The input
  is the multipart body of the submission.
\<close>

record job =
  job_id :: string
  job_status :: job_status
  currentStage :: current_stage
  job_progress :: nat
  job_message :: string
  job_error :: "string option"
  job_input :: "(string \<times> form_value) list"
  artifactRef :: "string option"
  createdAt :: nat

text \<open>
  Modelled from the spec: the Job Store's \<^verbatim>\<open>Create(input)\<close> (section 4.1), which makes
  a job "in state queued, progress 0" (section 3) under a fresh identifier; the
  server's store is missing.  The identifier is a counter, which the spec allows
  within one run of the server.
\<close>

definition store_create ::
  "(string \<times> form_value) list \<Rightarrow> nat \<Rightarrow> job list \<Rightarrow> string \<times> job list" where
  "store_create inp now store =
     (let ident = ''job-'' @ show_nat (length store)
      in (ident,
          store @ [\<lparr>job_id = ident, job_status = Queued, currentStage = QueuedStage,
                    job_progress = 0, job_message = [], job_error = None, job_input = inp,
                    artifactRef = None, createdAt = now\<rparr>]))"

text \<open>
  Modelled from the spec: the Submission Endpoint (sections 4.4 and 6): a multipart
  body "with an optional file field and an optional text field; at least one
  required"; with neither it answers "HTTP 400 with a descriptive error body" and
  creates no job, otherwise it creates a job and answers with its \<^verbatim>\<open>job_id\<close>.  The
  server's endpoint is missing; the field names are those the client sends.
\<close>

definition submission_endpoint ::
  "(string \<times> form_value) list \<Rightarrow> nat \<Rightarrow> job list \<Rightarrow> (nat \<times> jsval) \<times> job list" where
  "submission_endpoint body now store =
     (if map_of body ''file'' = None \<and> map_of body ''description'' = None then
        ((400, JObj [(''detail'', JStr ''Provide a document or a description'')]), store)
      else
        (let (ident, store1) = store_create body now store
         in ((200, JObj [(''job_id'', JStr ident)]), store1)))"

text \<open>
  Modelled from the spec: the Orchestrator's run of the stages of one job (section
  4.2, step 2 and 3), as the list of the job's successive records; the server's
  orchestrator is missing.  For stage \<open>i\<close> it sets \<^verbatim>\<open>currentStage\<close>, \<^verbatim>\<open>message\<close>
  and \<^verbatim>\<open>progress = i / total * 100\<close> and calls the stage's handler on the output of
  the stage before; a handler's failure (\<open>Inl\<close>) marks the job failed at that stage
  and stops; after the last stage the artifact is saved and the job is completed.
\<close>

fun run_stages ::
  "(stage \<Rightarrow> string \<Rightarrow> string + string) \<Rightarrow> nat \<Rightarrow> stage list \<Rightarrow> string \<Rightarrow> job \<Rightarrow> job list" where
  "run_stages handler i [] output j =
     [j\<lparr>artifactRef := Some output, job_progress := 100, job_status := Completed\<rparr>]"
| "run_stages handler i (s # rest) output j =
     (let j1 = j\<lparr>currentStage := AtStage s, job_message := stage_name s,
                 job_progress := i * 100 div length pipeline\<rparr>
      in j1 # (case handler s output of
                 Inl failure \<Rightarrow> [j1\<lparr>job_status := Failed, job_error := Some failure\<rparr>]
               | Inr out \<Rightarrow> run_stages handler (i + 1) rest out j1))"

text \<open>
  Modelled from the spec: the life of a job under the Orchestrator (section 4.2): the
  job as created, then step 1 ("set status = running, currentStage = stages[0],
  progress = 0"), then the stages; the server's orchestrator is missing.
\<close>

definition job_history :: "(stage \<Rightarrow> string \<Rightarrow> string + string) \<Rightarrow> string \<Rightarrow> job \<Rightarrow> job list" where
  "job_history handler source j =
     (let j0 = j\<lparr>job_status := Running, currentStage := AtStage (hd pipeline), job_progress := 0\<rparr>
      in j # j0 # run_stages handler 0 pipeline source j0)"

text \<open>
  Modelled from the spec: "forward-only" for successive records of a job (section 3):
  from one record to the next the stage index does not decrease and advances by at
  most one.
\<close>

fun forward_only :: "job list \<Rightarrow> bool" where
  "forward_only [] = True"
| "forward_only [j] = True"
| "forward_only (j # k # rest) =
     (stage_index (currentStage j) \<le> stage_index (currentStage k)
      \<and> stage_index (currentStage k) \<le> stage_index (currentStage j) + 1
      \<and> forward_only (k # rest))"

section \<open>Observations on lists of effects\<close>

lemma timers_append: "timers (xs @ ys) = timers xs @ timers ys"
  by (induction xs rule: timers.induct) simp_all

lemma poll_timers_append: "poll_timers (xs @ ys) = poll_timers xs @ poll_timers ys"
  by (simp add: poll_timers_def timers_append)

lemma navigations_append: "navigations (xs @ ys) = navigations xs @ navigations ys"
  by (induction xs rule: navigations.induct) simp_all

lemma requested_urls_append: "requested_urls (xs @ ys) = requested_urls xs @ requested_urls ys"
  by (induction xs rule: requested_urls.induct) simp_all

lemma terminal_lines_append:
  "terminal_lines tag (xs @ ys) = terminal_lines tag xs @ terminal_lines tag ys"
  by (induction tag xs rule: terminal_lines.induct) simp_all

lemma storage_after_append: "storage_after (xs @ ys) st = storage_after ys (storage_after xs st)"
proof (induction xs arbitrary: st)
  case Nil
  show ?case by simp
next
  case (Cons e es)
  show ?case using Cons.IH by (cases e) (simp_all del: fun_upd_apply)
qed


lemma page_write_local: "page_write e \<Longrightarrow> local_effect e"
  by (cases e) simp_all

lemma local_requested_urls: "\<forall>e \<in> set es. local_effect e \<Longrightarrow> requested_urls es = []"
  by (induction es rule: requested_urls.induct) simp_all

lemma local_navigations: "\<forall>e \<in> set es. local_effect e \<Longrightarrow> navigations es = []"
  by (induction es rule: navigations.induct) simp_all

lemma local_storage: "\<forall>e \<in> set es. local_effect e \<Longrightarrow> storage_after es st = st"
  by (induction es st rule: storage_after.induct) simp_all

lemma strict_eq_JStr: "strict_eq v (JStr s) = (v = JStr s)"
  by (cases v) auto


section \<open>String conversion\<close>

lemma printable_iff: "printable v \<longleftrightarrow> (\<exists>text. to_string v = Inr text)"
  by (cases "to_string v") (simp_all add: printable_def)

lemma printable_dom_text: "printable v \<Longrightarrow> \<exists>text. dom_text v = Inr text"
  by (cases v) (simp_all add: printable_iff)

lemma printable_js_or: "printable a \<Longrightarrow> printable b \<Longrightarrow> printable (js_or a b)"
  by (simp add: js_or_def)

lemma printable_simps:
  "printable JUndefined" "printable JNull" "printable (JBool b)" "printable (JNum n)"
  "printable (JStr s)"
  by (simp_all add: printable_def)

lemma in_sequence_all:
  "(\<And>es. Inr es \<in> set steps \<Longrightarrow> \<forall>e \<in> set es. P e) \<Longrightarrow> \<forall>e \<in> set (fst (in_sequence steps)). P e"
  by (induction steps rule: in_sequence.induct) auto

lemma in_sequence_Inr3:
  "in_sequence [Inr a, Inr b, Inr c] = (a @ b @ c, None)"
  by simp

section \<open>The effects of the process page are writes to the page and timers\<close>

lemma pw_addTerminalLine: "\<forall>e \<in> set (addTerminalLine doc tag m b). page_write e"
  by (simp add: addTerminalLine_def)

lemma pw_update_step_row: "\<forall>e \<in> set (update_step_row doc c ident idx). page_write e"
  by (auto simp: update_step_row_def undim_def split: option.splits)

lemma pw_updatePipelineStep: "\<forall>e \<in> set (updatePipelineStep doc cs). page_write e"
  using pw_update_step_row by (auto simp: updatePipelineStep_def Let_def)

lemma pw_update_visualization:
  "\<forall>e \<in> set (snd (update_visualization doc vars cs)). page_write e"
  using pw_updatePipelineStep pw_addTerminalLine
  by (auto simp: update_visualization_def Let_def)

lemma pw_update_progress: "update_progress doc p = Inr es \<Longrightarrow> \<forall>e \<in> set es. page_write e"
  by (auto simp: update_progress_def split: if_splits sum.splits)

lemma pw_write_stage_badge: "write_stage_badge doc cs = Inr es \<Longrightarrow> \<forall>e \<in> set es. page_write e"
  by (auto simp: write_stage_badge_def split: if_splits sum.splits)

lemma pw_write_status_label: "write_status_label doc m = Inr es \<Longrightarrow> \<forall>e \<in> set es. page_write e"
  by (auto simp: write_status_label_def split: if_splits sum.splits)

lemma pw_status_writes: "\<forall>e \<in> set (fst (status_writes doc data)). page_write e"
  unfolding status_writes_def
proof (rule in_sequence_all)
  fix es
  assume "Inr es \<in> set [update_progress doc (read_prop data ''progress''),
                         write_stage_badge doc (read_prop data ''current_step''),
                         write_status_label doc (read_prop data ''message'')]"
  then have "update_progress doc (read_prop data ''progress'') = Inr es
      \<or> write_stage_badge doc (read_prop data ''current_step'') = Inr es
      \<or> write_status_label doc (read_prop data ''message'') = Inr es"
    by auto
  then show "\<forall>e \<in> set es. page_write e"
    using pw_update_progress pw_write_stage_badge pw_write_status_label by blast
qed

lemma pw_mark_all_complete: "\<forall>e \<in> set (mark_all_complete doc). page_write e"
  by (auto simp: mark_all_complete_def undim_def split: option.splits)

lemma local_addTerminalLine: "\<forall>e \<in> set (addTerminalLine doc tag m b). local_effect e"
  by (simp add: addTerminalLine_def)

lemma local_mark_all_complete: "\<forall>e \<in> set (mark_all_complete doc). local_effect e"
  using pw_mark_all_complete page_write_local by blast

lemma local_poll_catch: "\<forall>e \<in> set (poll_catch doc msg). local_effect e"
  by (auto simp: poll_catch_def addTerminalLine_def)

lemma local_check_terminal:
  "check_terminal doc s err m = Inr es \<Longrightarrow> \<forall>e \<in> set es. local_effect e"
  by (auto simp: check_terminal_def ball_Un local_addTerminalLine local_mark_all_complete
      addTerminalLine_def split: if_splits sum.splits)

lemma local_poll_try: "\<forall>e \<in> set (fst (snd (poll_try doc vars data))). local_effect e"
proof (cases "data = JNull \<or> data = JUndefined")
  case True
  then show ?thesis by (auto simp: poll_try_def)
next
  case False
  have w: "\<forall>e \<in> set (fst (status_writes doc data)). local_effect e"
    using pw_status_writes page_write_local by blast
  have v: "\<forall>e \<in> set (snd (update_visualization doc v c)). local_effect e" for v c
    using pw_update_visualization page_write_local by blast
  from False w v show ?thesis
    by (auto simp: poll_try_def Let_def case_prod_beta
        split: option.splits sum.splits dest: local_check_terminal)
qed

lemma pollStatus_shape:
  "\<exists>es. snd (pollStatus base jobId doc vars reply)
          = Request (GET (base @ ''/api/status/'' @ jobId)) # es
        \<and> (\<forall>e \<in> set es. local_effect e)"
proof (cases reply)
  case (NetworkFailure msg)
  then show ?thesis using local_poll_catch by (simp add: pollStatus_def)
next
  case (Response code body)
  show ?thesis
  proof (cases "res_ok code")
    case False
    with Response show ?thesis using local_poll_catch
      by (simp add: pollStatus_def Let_def ball_Un local_addTerminalLine)
  next
    case True
    show ?thesis
    proof (cases body)
      case (Inl msg)
      with Response True show ?thesis using local_poll_catch by (simp add: pollStatus_def)
    next
      case (Inr data)
      obtain vars2 effects exn where t: "poll_try doc vars data = (vars2, effects, exn)"
        by (cases "poll_try doc vars data") auto
      with local_poll_try [of doc vars data] have "\<forall>e \<in> set effects. local_effect e"
        by simp
      with Response True Inr t show ?thesis
        using local_poll_catch by (cases exn) (simp_all add: pollStatus_def ball_Un)
    qed
  qed
qed

lemma pollStatus_requested_urls:
  "requested_urls (snd (pollStatus base jobId doc vars reply)) = [base @ ''/api/status/'' @ jobId]"
proof -
  obtain es where
    "snd (pollStatus base jobId doc vars reply) = Request (GET (base @ ''/api/status/'' @ jobId)) # es"
    and "\<forall>e \<in> set es. local_effect e"
    using pollStatus_shape by blast
  then show ?thesis by (simp add: local_requested_urls)
qed

lemma pollStatus_navigations: "navigations (snd (pollStatus base jobId doc vars reply)) = []"
proof -
  obtain es where
    "snd (pollStatus base jobId doc vars reply) = Request (GET (base @ ''/api/status/'' @ jobId)) # es"
    and "\<forall>e \<in> set es. local_effect e"
    using pollStatus_shape by blast
  then show ?thesis by (simp add: local_navigations)
qed

lemma pollStatus_storage: "storage_after (snd (pollStatus base jobId doc vars reply)) st = st"
proof -
  obtain es where
    "snd (pollStatus base jobId doc vars reply) = Request (GET (base @ ''/api/status/'' @ jobId)) # es"
    and "\<forall>e \<in> set es. local_effect e"
    using pollStatus_shape by blast
  then show ?thesis by (simp add: local_storage)
qed

section \<open>A poll whose conversions succeed\<close>

lemma update_progress_printable:
  "printable p \<Longrightarrow> \<exists>es. update_progress doc p = Inr es"
  by (auto simp: update_progress_def printable_iff)

lemma stage_badge_text_printable: "printable cs \<Longrightarrow> \<exists>text. stage_badge_text cs = Inr text"
  by (simp add: stage_badge_text_def Let_def printable_dom_text)

lemma write_stage_badge_printable:
  "printable cs \<Longrightarrow> \<exists>es. write_stage_badge doc cs = Inr es"
  using stage_badge_text_printable [of cs] by (auto simp: write_stage_badge_def)

lemma write_status_label_printable:
  "printable m \<Longrightarrow> \<exists>es. write_status_label doc m = Inr es"
  using printable_dom_text [OF printable_js_or [of m "JStr ''Processing...''"]]
  by (auto simp: write_status_label_def printable_simps)



lemma check_terminal_not_failed:
  "s \<noteq> JStr ''failed'' \<Longrightarrow> \<exists>es. check_terminal doc s err m = Inr es"
  by (simp add: check_terminal_def strict_eq_JStr)

text \<open>
  The poll of a parsed status when the three writes do not throw: the throw of the
  failed branch, if any, is the only one left, and it comes after the visualization
  block.
\<close>

lemma pollStatus_parsed:
  assumes "res_ok code" and "data \<noteq> JNull" and "data \<noteq> JUndefined"
    and "snd (status_writes doc data) = None"
  shows "pollStatus base jobId doc vars (Response code (Inr data)) =
     (fst (update_visualization doc (vars\<lparr>pollCount := pollCount vars + 1\<rparr>)
             (read_prop data ''current_step'')),
      Request (GET (base @ ''/api/status/'' @ jobId))
      # fst (status_writes doc data)
      @ snd (update_visualization doc (vars\<lparr>pollCount := pollCount vars + 1\<rparr>)
               (read_prop data ''current_step''))
      @ (case check_terminal doc (read_prop data ''status'') (read_prop data ''error'')
                (read_prop data ''message'') of
           Inl msg \<Rightarrow> poll_catch doc msg
         | Inr final \<Rightarrow> final))"
  using assms
  by (simp add: pollStatus_def poll_try_def Let_def case_prod_beta split: sum.splits)


section \<open>The timers of a poll\<close>

lemma timers_poll_catch: "timers (poll_catch doc msg) = [(PollStatus, 5000)]"
  by (simp add: poll_catch_def addTerminalLine_def)


lemma timers_unobserved:
  assumes "observed_step reply = None"
  shows "timers (snd (pollStatus base jobId doc vars reply)) = [(PollStatus, 5000)]"
  using assms
  by (auto simp: observed_step_def pollStatus_def poll_try_def timers_poll_catch Let_def
      timers_append addTerminalLine_def split: fetch_result.splits sum.splits if_splits)



section \<open>Polling: intervals, retries and terminal states\<close>

text \<open>
  C4: when a status poll is answered with HTTP 404, the client treats the unknown
  job as possibly transient.  It writes the warning line to the terminal log (when
  the page has one) and sets the timer for the next poll; it navigates nowhere,
  leaves \<^verbatim>\<open>localStorage\<close> and its own variables as they are, and the next poll
  asks for the same job id again.
\<close>

theorem status_404_is_retried:
  "fst (pollStatus base jobId doc vars (Response 404 body)) = vars \<and>
   timers (snd (pollStatus base jobId doc vars (Response 404 body))) = [(PollStatus, 5000)] \<and>
   navigations (snd (pollStatus base jobId doc vars (Response 404 body))) = [] \<and>
   storage_after (snd (pollStatus base jobId doc vars (Response 404 body))) st = st \<and>
   terminal_lines ''Warn'' (snd (pollStatus base jobId doc vars (Response 404 body))) =
     (if terminal_log doc \<and> terminal_container doc
      then [''Job not found on server (possible restart). Retrying...''] else []) \<and>
   requested_urls (snd (poll_run base jobId doc vars [Response 404 body, reply])) =
     [base @ ''/api/status/'' @ jobId, base @ ''/api/status/'' @ jobId]"
proof -
  let ?es = "snd (pollStatus base jobId doc vars (Response 404 body))"
  have v: "fst (pollStatus base jobId doc vars (Response 404 body)) = vars"
    by (simp add: pollStatus_def res_ok_def)
  have t: "timers ?es = [(PollStatus, 5000)]"
    by (rule timers_unobserved) (simp add: observed_step_def res_ok_def)
  have w: "terminal_lines ''Warn'' ?es =
     (if terminal_log doc \<and> terminal_container doc
      then [''Job not found on server (possible restart). Retrying...''] else [])"
    by (simp add: pollStatus_def res_ok_def addTerminalLine_def)
  have "poll_timers ?es \<noteq> []"
    by (simp add: poll_timers_def t)
  then have r: "requested_urls (snd (poll_run base jobId doc vars [Response 404 body, reply])) =
     [base @ ''/api/status/'' @ jobId, base @ ''/api/status/'' @ jobId]"
    by (simp add: case_prod_beta Let_def requested_urls_append pollStatus_requested_urls)
  from v t w r show ?thesis
    by (simp add: pollStatus_navigations pollStatus_storage)
qed

theorem status_404_is_retried_witness:
  "timers (snd (pollStatus [] ''job-1'' full_process_dom \<lparr>lastStep = JStr [], pollCount = 0\<rparr>
                  (Response 404 (Inr (JObj [(''detail'', JStr ''Job not found'')])))))
     = [(PollStatus, 5000)] \<and>
   terminal_lines ''Warn''
     (snd (pollStatus [] ''job-1'' full_process_dom \<lparr>lastStep = JStr [], pollCount = 0\<rparr>
             (Response 404 (Inr (JObj [(''detail'', JStr ''Job not found'')])))))
     = [''Job not found on server (possible restart). Retrying...''] \<and>
   requested_urls
     (snd (poll_run [] ''job-1'' full_process_dom \<lparr>lastStep = JStr [], pollCount = 0\<rparr>
             [Response 404 (Inr (JObj [(''detail'', JStr ''Job not found'')])),
              NetworkFailure ''Failed to fetch'']))
     = [''/api/status/job-1'', ''/api/status/job-1'']"
  using status_404_is_retried
    [of "[]" "''job-1''" full_process_dom "\<lparr>lastStep = JStr [], pollCount = 0\<rparr>"
        "Inr (JObj [(''detail'', JStr ''Job not found'')])" Map.empty
        "NetworkFailure ''Failed to fetch''"]
  by (simp add: full_process_dom_def)

text \<open>
  A poll in which something is thrown inside the \<^verbatim>\<open>try\<close> block is caught and
  retried after 5000 ms, whatever the status says.  Such a throw needs a status with
  a field that does not convert to a string.
\<close>

lemma throwing_status_is_retried:
  "timers (snd (pollStatus [] ''job-1'' full_process_dom \<lparr>lastStep = JStr [], pollCount = 0\<rparr>
      (Response 200 (Inr (JObj [(''status'', JStr ''completed''),
                                (''current_step'', JObj [(''toString'', JNum 1)])])))))
     = [(PollStatus, 5000)]"
  by (simp add: pollStatus_def poll_try_def status_writes_def update_progress_def
      write_stage_badge_def stage_badge_text_def stepNames_def read_prop_def res_ok_def
      full_process_dom_def poll_catch_def addTerminalLine_def Let_def)



lemma dom_writes_terminal_lines:
  "\<forall>e \<in> set es. \<exists>t p v. e = DomWrite t p v \<Longrightarrow> terminal_lines tag es = []"
  by (induction tag es rule: terminal_lines.induct) auto



lemma dw_status_writes: "\<forall>e \<in> set (fst (status_writes doc data)). \<exists>t p v. e = DomWrite t p v"
  unfolding status_writes_def
proof (rule in_sequence_all)
  fix es
  assume "Inr es \<in> set [update_progress doc (read_prop data ''progress''),
                         write_stage_badge doc (read_prop data ''current_step''),
                         write_status_label doc (read_prop data ''message'')]"
  then have "update_progress doc (read_prop data ''progress'') = Inr es
      \<or> write_stage_badge doc (read_prop data ''current_step'') = Inr es
      \<or> write_status_label doc (read_prop data ''message'') = Inr es"
    by auto
  then show "\<forall>e \<in> set es. \<exists>t p v. e = DomWrite t p v"
    by (auto simp: update_progress_def write_stage_badge_def write_status_label_def
        split: if_splits sum.splits)
qed







section \<open>The Generate button\<close>

lemma after_submit_Inr_iff:
  "(\<exists>es. after_submit fl description reply = Inr es) \<longleftrightarrow>
   (\<exists>code data. reply = Response code (Inr data) \<and> res_ok code
      \<and> data \<noteq> JNull \<and> data \<noteq> JUndefined
                      \<and> printable (read_prop data ''job_id''))"
proof (cases reply)
  case (NetworkFailure msg)
  then show ?thesis by (simp add: after_submit_def)
next
  case (Response code body)
  show ?thesis
  proof (cases body)
    case (Inl msg)
    with Response show ?thesis by (simp add: after_submit_def)
  next
    case (Inr data)
    show ?thesis
    proof (cases "res_ok code")
      case False
      with Response Inr show ?thesis
        by (simp add: after_submit_def split: sum.splits)
    next
      case True
      show ?thesis
      proof (cases "get_prop data ''job_id''")
        case (Inl msg)
        then have "data = JNull \<or> data = JUndefined" by (cases data) simp_all
        with Response Inr True Inl show ?thesis by (auto simp: after_submit_def)
      next
        case got: (Inr jobId)
        then have nn: "data \<noteq> JNull" "data \<noteq> JUndefined" by auto
        from got have "read_prop data ''job_id'' = jobId" by (simp add: read_prop_def)
        with Response Inr True got nn show ?thesis
          by (cases "to_string jobId") (simp_all add: after_submit_def printable_def)
      qed
    qed
  qed
qed

lemma after_submit_Inr_effects:
  assumes "after_submit fl description reply = Inr es"
  shows "requested_urls es = [] \<and> navigations es = [''process.html'']
         \<and> button_disabled es b = b \<and> (\<forall>m. Alert m \<notin> set es)"
proof -
  from assms obtain stored where es:
    "es = [StorageSet ''graniteJobId'' stored,
           StorageSet ''currentProjectTopic''
             (if description \<noteq> [] then description
              else (case fl of
                      Some f \<Rightarrow> if file_name f \<noteq> [] then file_name f else ''Generated Video''
                    | None \<Rightarrow> ''Generated Video''))]
          @ (case fl of Some f \<Rightarrow> [StorageSet ''graniteFileName'' (file_name f)] | None \<Rightarrow> [])
          @ [Navigate ''process.html'']"
    by (auto simp: after_submit_def split: fetch_result.splits sum.splits if_splits)
  show ?thesis
    by (cases fl) (simp_all add: es)
qed

text \<open>
  C8: a click that passes validation disables the button before it sends its one
  request.  The button is enabled again only on the failure path, which shows the
  error and navigates nowhere; when the submission succeeds the client navigates to
  the process page and the button stays disabled.  The click sends no second
  request.  The submission succeeds exactly when the response is ok and its body is
  a value with a \<^verbatim>\<open>job_id\<close> that converts to a string; every other reply,
  a rejected \<^verbatim>\<open>fetch\<close> and a throw of \<^verbatim>\<open>setItem\<close> included, takes the failure
  path.
\<close>

theorem one_request_per_click:
  assumes "chosen_file page \<noteq> None \<or> description_of page \<noteq> []"
  shows "\<exists>pre request rest.
           generate_click base page reply = pre @ Request request # rest
           \<and> button_disabled pre b \<and> requested_urls pre = [] \<and> requested_urls rest = []
           \<and> (button_disabled (generate_click base page reply) b
                \<longleftrightarrow> navigations (generate_click base page reply) = [''process.html''])
           \<and> (\<not> button_disabled (generate_click base page reply) b
                \<longleftrightarrow> navigations (generate_click base page reply) = []
                    \<and> (\<exists>msg. Alert (''Error: '' @ msg) \<in> set rest))
           \<and> (navigations (generate_click base page reply) = [''process.html'']
                \<longleftrightarrow> (\<exists>code data. reply = Response code (Inr data) \<and> res_ok code
                      \<and> data \<noteq> JNull \<and> data \<noteq> JUndefined
                      \<and> printable (read_prop data ''job_id'')))"
proof -
  let ?pre = "[DomWrite GenerateBtn ''disabled'' ''true'',
               DomWrite GenerateBtn ''innerHTML'' loading_html]"
  let ?request = "POST (base @ ''/api/generate'') (form_data (chosen_file page) (description_of page))"
  let ?ok = "\<exists>code data. reply = Response code (Inr data) \<and> res_ok code
                \<and> data \<noteq> JNull \<and> data \<noteq> JUndefined
                      \<and> printable (read_prop data ''job_id'')"
  show ?thesis
  proof (cases "after_submit (chosen_file page) (description_of page) reply")
    case (Inl msg)
    let ?rest = "[Alert (''Error: '' @ msg), DomWrite GenerateBtn ''disabled'' ''false'',
                  DomWrite GenerateBtn ''innerHTML'' generate_html]"
    from assms Inl have click: "generate_click base page reply = ?pre @ Request ?request # ?rest"
      by (auto simp: generate_click_def Let_def)
    from Inl have "\<not> ?ok"
      using after_submit_Inr_iff [of "chosen_file page" "description_of page" reply] by simp
    then have "button_disabled ?pre b \<and> requested_urls ?pre = [] \<and> requested_urls ?rest = []
           \<and> (button_disabled (?pre @ Request ?request # ?rest) b
                \<longleftrightarrow> navigations (?pre @ Request ?request # ?rest) = [''process.html''])
           \<and> (\<not> button_disabled (?pre @ Request ?request # ?rest) b
                \<longleftrightarrow> navigations (?pre @ Request ?request # ?rest) = []
                    \<and> (\<exists>msg. Alert (''Error: '' @ msg) \<in> set ?rest))
           \<and> (navigations (?pre @ Request ?request # ?rest) = [''process.html''] \<longleftrightarrow> ?ok)"
      by simp
    with click show ?thesis by metis
  next
    case (Inr es)
    from assms Inr have click: "generate_click base page reply = ?pre @ Request ?request # es"
      by (auto simp: generate_click_def Let_def)
    from Inr have ok: ?ok
      using after_submit_Inr_iff [of "chosen_file page" "description_of page" reply] by blast
    have eff: "requested_urls es = []" "navigations es = [''process.html'']"
      "button_disabled es True = True" "\<forall>m. Alert m \<notin> set es"
      using after_submit_Inr_effects [OF Inr] by auto
    have "button_disabled ?pre b \<and> requested_urls ?pre = [] \<and> requested_urls es = []
           \<and> (button_disabled (?pre @ Request ?request # es) b
                \<longleftrightarrow> navigations (?pre @ Request ?request # es) = [''process.html''])
           \<and> (\<not> button_disabled (?pre @ Request ?request # es) b
                \<longleftrightarrow> navigations (?pre @ Request ?request # es) = []
                    \<and> (\<exists>msg. Alert (''Error: '' @ msg) \<in> set es))
           \<and> (navigations (?pre @ Request ?request # es) = [''process.html''] \<longleftrightarrow> ?ok)"
      using ok eff by simp
    with click show ?thesis by metis
  qed
qed

theorem one_request_per_click_witness:
  "description_of topic_page = ''explain photosynthesis'' \<and>
   (\<exists>pre request rest.
      generate_click [] topic_page (Response 200 (Inr (JObj [(''job_id'', JStr ''abc123'')])))
        = pre @ Request request # rest
      \<and> button_disabled pre False \<and> requested_urls pre = [] \<and> requested_urls rest = []) \<and>
   button_disabled
     (generate_click [] topic_page (Response 200 (Inr (JObj [(''job_id'', JStr ''abc123'')])))) False \<and>
   \<not> button_disabled
     (generate_click [] topic_page (Response 400 (Inr (JObj [(''detail'', JStr ''bad input'')])))) False \<and>
   \<not> button_disabled
     (generate_click [] topic_page
        (Response 200 (Inr (JObj [(''job_id'', JObj [(''toString'', JNum 1)])])))) False"
proof -
  have d: "description_of topic_page = ''explain photosynthesis''"
    by code_simp
  then have valid: "chosen_file topic_page \<noteq> None \<or> description_of topic_page \<noteq> []"
    by simp
  have ok: "res_ok 200" and bad: "\<not> res_ok 400"
    by (simp_all add: res_ok_def)
  have pj: "printable (read_prop (JObj [(''job_id'', JStr ''abc123'')]) ''job_id'')"
    "\<not> printable (read_prop (JObj [(''job_id'', JObj [(''toString'', JNum 1)])]) ''job_id'')"
    by (simp_all add: read_prop_def printable_def)
  show ?thesis
    using d ok bad pj
      one_request_per_click [OF valid, of "[]" "Response 200 (Inr (JObj [(''job_id'', JStr ''abc123'')]))" False]
      one_request_per_click [OF valid, of "[]" "Response 400 (Inr (JObj [(''detail'', JStr ''bad input'')]))" False]
      one_request_per_click [OF valid, of "[]"
        "Response 200 (Inr (JObj [(''job_id'', JObj [(''toString'', JNum 1)])]))" False]
    by auto
qed

text \<open>
  C2: with no file and a description that is empty after trimming, the click handler
  only shows the alert: it sends no request and stores nothing.  A body with neither
  field is answered by the submission endpoint with HTTP 400, and the job store is
  left as it was.
\<close>

theorem empty_submission_rejected:
  "(chosen_file page = None \<and> description_of page = [] \<longrightarrow>
      generate_click base page reply
        = [Alert ''Please upload a PDF document or enter a topic description.''] \<and>
      sent_requests (generate_click base page reply) = [] \<and>
      requested_urls (generate_click base page reply) = [] \<and>
      storage_after (generate_click base page reply) st = st) \<and>
   (map_of body ''file'' = None \<and> map_of body ''description'' = None \<longrightarrow>
      fst (fst (submission_endpoint body now store)) = 400 \<and>
      snd (submission_endpoint body now store) = store \<and>
      length (snd (submission_endpoint body now store)) = length store)"
  by (simp add: generate_click_def submission_endpoint_def)

theorem empty_submission_rejected_witness:
  "chosen_file blank_page = None \<and> description_of blank_page = [] \<and>
   sent_requests (generate_click [] blank_page (NetworkFailure ''Failed to fetch'')) = [] \<and>
   map_of (form_data (chosen_file blank_page) (description_of blank_page)) ''file'' = None \<and>
   map_of (form_data (chosen_file blank_page) (description_of blank_page)) ''description'' = None \<and>
   fst (fst (submission_endpoint (form_data (chosen_file blank_page) (description_of blank_page)) 0 []))
     = 400 \<and>
   snd (submission_endpoint (form_data (chosen_file blank_page) (description_of blank_page)) 0 []) = []"
proof -
  have d: "description_of blank_page = []"
    by code_simp
  have f: "chosen_file blank_page = None"
    by (simp add: blank_page_def)
  have m: "form_data (chosen_file blank_page) (description_of blank_page) = []"
    by (simp add: d f form_data_def)
  show ?thesis
    using d f m
      empty_submission_rejected
        [of blank_page "[]" "NetworkFailure ''Failed to fetch''" Map.empty
            "form_data (chosen_file blank_page) (description_of blank_page)" 0 "[]"]
    by simp
qed

lemma poll_run_requested_urls:
  "set (requested_urls (snd (poll_run base jobId doc vars replies)))
     \<subseteq> {base @ ''/api/status/'' @ jobId}"
proof (induction replies arbitrary: vars)
  case Nil
  show ?case by simp
next
  case (Cons reply replies)
  show ?case
    using Cons.IH [of "fst (pollStatus base jobId doc vars reply)"]
    by (simp add: case_prod_beta Let_def requested_urls_append pollStatus_requested_urls)
qed

lemma output_load_requested_urls:
  "requested_urls (output_load base storage odoc) =
     (case storage ''graniteJobId'' of
        None \<Rightarrow> []
      | Some j \<Rightarrow> if output_video odoc \<and> j \<noteq> [] then [base @ ''/api/video/'' @ j] else [])"
  by (simp add: output_load_def Let_def requested_urls_append split: option.splits)

text \<open>
  C6: the request of a submission is one POST whose multipart body has the
  \<^verbatim>\<open>file\<close> field exactly when a file was chosen and the \<^verbatim>\<open>description\<close> field
  exactly when the trimmed description is not empty, and has at least one of them.
  When the response is ok and carries a \<^verbatim>\<open>job_id\<close> string, the client stores it
  under \<^verbatim>\<open>graniteJobId\<close> and goes to the process page; the process page polls the
  status of that id, and the output page and its download button request the video
  of that id, and of no other.
\<close>

theorem submission_and_job_id:
  assumes "chosen_file page \<noteq> None \<or> description_of page \<noteq> []"
  shows
    "sent_requests (generate_click base page reply) =
       [POST (base @ ''/api/generate'') (form_data (chosen_file page) (description_of page))] \<and>
     map_of (form_data (chosen_file page) (description_of page)) ''file''
       = map_option FileField (chosen_file page) \<and>
     map_of (form_data (chosen_file page) (description_of page)) ''description''
       = (if description_of page = [] then None else Some (TextField (description_of page))) \<and>
     form_data (chosen_file page) (description_of page) \<noteq> [] \<and>
     (reply = Response code (Inr data) \<and> res_ok code \<and> read_prop data ''job_id'' = JStr jid \<longrightarrow>
        storage_after (generate_click base page reply) st ''graniteJobId'' = Some jid \<and>
        navigations (generate_click base page reply) = [''process.html''] \<and>
        fst (process_load (storage_after (generate_click base page reply) st) pdoc)
          = (if jid = [] then None else Some jid) \<and>
        requested_urls (snd (pollStatus base jid pdoc vars next_reply))
          = [base @ ''/api/status/'' @ jid] \<and>
        set (requested_urls (snd (poll_run base jid pdoc vars replies)))
          \<subseteq> {base @ ''/api/status/'' @ jid} \<and>
        requested_urls (output_load base (storage_after (generate_click base page reply) st) odoc)
          = (if output_video odoc \<and> jid \<noteq> [] then [base @ ''/api/video/'' @ jid] else []) \<and>
        requested_urls (download_click base (storage_after (generate_click base page reply) st) odoc)
          = (if download_btn odoc \<and> jid \<noteq> [] then [base @ ''/api/video/'' @ jid] else []))"
proof -
  let ?es = "generate_click base page reply"
  have form: "map_of (form_data (chosen_file page) (description_of page)) ''file''
       = map_option FileField (chosen_file page) \<and>
     map_of (form_data (chosen_file page) (description_of page)) ''description''
       = (if description_of page = [] then None else Some (TextField (description_of page))) \<and>
     form_data (chosen_file page) (description_of page) \<noteq> []"
    using assms by (cases "chosen_file page") (auto simp: form_data_def)
  have sent: "sent_requests ?es =
       [POST (base @ ''/api/generate'') (form_data (chosen_file page) (description_of page))]"
  proof (cases "after_submit (chosen_file page) (description_of page) reply")
    case (Inl msg)
    with assms show ?thesis by (auto simp: generate_click_def Let_def)
  next
    case (Inr es)
    then have "sent_requests es = []"
      by (cases "chosen_file page")
         (auto simp: after_submit_def split: fetch_result.splits sum.splits if_splits)
    with assms Inr show ?thesis by (auto simp: generate_click_def Let_def)
  qed
  have stored: "storage_after ?es st ''graniteJobId'' = Some jid \<and> navigations ?es = [''process.html'']"
    if r: "reply = Response code (Inr data)" "res_ok code" "read_prop data ''job_id'' = JStr jid"
  proof -
    from r(3) have g: "get_prop data ''job_id'' = Inr (JStr jid)"
      by (cases "get_prop data ''job_id''") (simp_all add: read_prop_def)
    from assms r(1,2) g show ?thesis
      by (cases "chosen_file page") (auto simp: generate_click_def Let_def after_submit_def)
  qed
  have later: "fst (process_load s pdoc) = (if jid = [] then None else Some jid) \<and>
        requested_urls (output_load base s odoc)
          = (if output_video odoc \<and> jid \<noteq> [] then [base @ ''/api/video/'' @ jid] else []) \<and>
        requested_urls (download_click base s odoc)
          = (if download_btn odoc \<and> jid \<noteq> [] then [base @ ''/api/video/'' @ jid] else [])"
    if "s ''graniteJobId'' = Some jid" for s
    using that by (simp add: process_load_def output_load_requested_urls download_click_def)
  from form sent stored later show ?thesis
    using pollStatus_requested_urls [of base jid pdoc vars next_reply]
      poll_run_requested_urls [of base jid pdoc vars replies]
    by blast
qed

theorem submission_and_job_id_witness:
  "description_of topic_page = ''explain photosynthesis'' \<and>
   sent_requests (generate_click [] topic_page (Response 200 (Inr (JObj [(''job_id'', JStr ''abc123'')]))))
     = [POST ''/api/generate'' [(''description'', TextField ''explain photosynthesis'')]] \<and>
   res_ok 200 \<and>
   read_prop (JObj [(''job_id'', JStr ''abc123'')]) ''job_id'' = JStr ''abc123'' \<and>
   storage_after
     (generate_click [] topic_page (Response 200 (Inr (JObj [(''job_id'', JStr ''abc123'')]))))
     Map.empty ''graniteJobId'' = Some ''abc123'' \<and>
   fst (process_load
          (storage_after
             (generate_click [] topic_page (Response 200 (Inr (JObj [(''job_id'', JStr ''abc123'')]))))
             Map.empty)
          full_process_dom) = Some ''abc123'' \<and>
   requested_urls
     (snd (pollStatus [] ''abc123'' full_process_dom \<lparr>lastStep = JStr [], pollCount = 0\<rparr>
             (NetworkFailure ''Failed to fetch''))) = [''/api/status/abc123''] \<and>
   requested_urls
     (output_load []
        (storage_after
           (generate_click [] topic_page (Response 200 (Inr (JObj [(''job_id'', JStr ''abc123'')]))))
           Map.empty)
        full_output_dom) = [''/api/video/abc123'']"
proof -
  have d: "description_of topic_page = ''explain photosynthesis''"
    by code_simp
  then have valid: "chosen_file topic_page \<noteq> None \<or> description_of topic_page \<noteq> []"
    by simp
  have f: "chosen_file topic_page = None"
    by (simp add: topic_page_def)
  show ?thesis
    using d f
      submission_and_job_id
        [OF valid, of "[]" "Response 200 (Inr (JObj [(''job_id'', JStr ''abc123'')]))"
            200 "JObj [(''job_id'', JStr ''abc123'')]" "''abc123''" Map.empty full_process_dom
            "\<lparr>lastStep = JStr [], pollCount = 0\<rparr>" "NetworkFailure ''Failed to fetch''" "[]"
            full_output_dom]
    by (simp add: res_ok_def read_prop_def form_data_def full_output_dom_def)
qed


section \<open>Stage names and stage order\<close>

lemma strict_eq_JStr_left: "strict_eq (JStr x) v = (v = JStr x)"
  by (cases v) auto

lemma indexOf_lower: "- 1 \<le> indexOf xs v"
  by (induction xs) (auto simp: Let_def strict_eq_JStr_left)

lemma indexOf_nonneg_iff: "0 \<le> indexOf xs v \<longleftrightarrow> (\<exists>x \<in> set xs. v = JStr x)"
  by (induction xs) (auto simp: Let_def strict_eq_JStr_left)

lemma indexOf_nth:
  "0 \<le> indexOf xs v \<Longrightarrow> nat (indexOf xs v) < length xs \<and> v = JStr (xs ! nat (indexOf xs v))"
proof (induction xs)
  case Nil
  then show ?case by simp
next
  case (Cons x xs)
  show ?case
  proof (cases "v = JStr x")
    case True
    then show ?thesis by (simp add: strict_eq_JStr_left)
  next
    case False
    with Cons.prems have nn: "0 \<le> indexOf xs v"
      by (simp add: Let_def strict_eq_JStr_left split: if_splits)
    with False have "indexOf (x # xs) v = indexOf xs v + 1"
      by (simp add: Let_def strict_eq_JStr_left)
    moreover have "nat (indexOf xs v + 1) = Suc (nat (indexOf xs v))"
      using nn by simp
    ultimately show ?thesis using Cons.IH [OF nn] by simp
  qed
qed

lemma stage_name_index: "indexOf stepNames (JStr (stage_name s)) = stage_index (AtStage s)"
  by (cases s) (simp_all add: stepNames_def pipeline_def)

lemma badge_texts:
  "map (\<lambda>n. stage_badge_text (JStr n)) stepNames =
     [Inr ''Stage 01'', Inr ''Stage 02'', Inr ''Stage 03'', Inr ''Stage 04'', Inr ''Stage 05'',
      Inr ''Stage 06'']"
  by code_simp

lemma stage_names: "(\<exists>x \<in> set stepNames. v = JStr x) \<longleftrightarrow> (\<exists>s. v = JStr (stage_name s))"
proof
  assume "\<exists>x \<in> set stepNames. v = JStr x"
  then obtain x where x: "x \<in> set stepNames" and v: "v = JStr x" by blast
  from x have "x \<in> set (map stage_name pipeline)"
    by (simp add: stepNames_def pipeline_def)
  then obtain s where "x = stage_name s" by auto
  with v show "\<exists>s. v = JStr (stage_name s)" by blast
next
  assume "\<exists>s. v = JStr (stage_name s)"
  then obtain s where v: "v = JStr (stage_name s)" by blast
  have "stage_name s \<in> set stepNames"
    by (cases s) (simp_all add: stepNames_def)
  with v show "\<exists>x \<in> set stepNames. v = JStr x" by blast
qed

text \<open>
  C5: the pipeline has exactly six stages, in the order extraction, planning,
  animation, narration, composition, quality, and a job is created at the sentinel
  \<^verbatim>\<open>queued\<close>, which is none of them.  The client's \<^verbatim>\<open>stepNames\<close> are the names
  of these six stages in this order, and the index the client computes for a stage
  name is the stage's index in the pipeline.  The stage badge shows a numbered stage
  exactly for a \<^verbatim>\<open>current_step\<close> that names one of the six stages (then the number
  is the stage's position, from 01 to 06); for every other value it shows the value
  itself.
\<close>

theorem six_stages_in_order:
  "pipeline = [Extraction, Planning, Animation, Narration, Composition, Quality] \<and>
   length pipeline = 6 \<and> distinct pipeline \<and>
   map stage_name pipeline = stepNames \<and>
   stepNames = [''extraction'', ''planning'', ''animation'', ''narration'', ''composition'', ''quality''] \<and>
   current_step_name QueuedStage = ''queued'' \<and> ''queued'' \<notin> set stepNames \<and>
   currentStage (last (snd (store_create inp now store))) = QueuedStage \<and>
   indexOf stepNames (JStr (stage_name s)) = stage_index (AtStage s) \<and>
   (0 \<le> indexOf stepNames cs \<longleftrightarrow> (\<exists>s. cs = JStr (stage_name s))) \<and>
   (0 \<le> indexOf stepNames cs \<longrightarrow>
      indexOf stepNames cs < 6 \<and>
      cs = JStr (stepNames ! nat (indexOf stepNames cs)) \<and>
      stage_badge_text cs
        = Inr (''Stage '' @ padStart 2 (CHR ''0'') (show_int (indexOf stepNames cs + 1)))) \<and>
   (indexOf stepNames cs < 0 \<longrightarrow> stage_badge_text cs = dom_text cs) \<and>
   map (\<lambda>n. stage_badge_text (JStr n)) stepNames
     = [Inr ''Stage 01'', Inr ''Stage 02'', Inr ''Stage 03'', Inr ''Stage 04'', Inr ''Stage 05'',
        Inr ''Stage 06'']"
proof -
  have a: "pipeline = [Extraction, Planning, Animation, Narration, Composition, Quality] \<and>
   length pipeline = 6 \<and> distinct pipeline \<and> map stage_name pipeline = stepNames \<and>
   stepNames = [''extraction'', ''planning'', ''animation'', ''narration'', ''composition'', ''quality''] \<and>
   current_step_name QueuedStage = ''queued'' \<and> ''queued'' \<notin> set stepNames"
    by (simp add: pipeline_def stepNames_def)
  have b: "currentStage (last (snd (store_create inp now store))) = QueuedStage"
    by (simp add: store_create_def Let_def)
  have c: "0 \<le> indexOf stepNames cs \<longleftrightarrow> (\<exists>s. cs = JStr (stage_name s))"
    by (simp add: indexOf_nonneg_iff stage_names)
  have d: "0 \<le> indexOf stepNames cs \<longrightarrow>
      indexOf stepNames cs < 6 \<and>
      cs = JStr (stepNames ! nat (indexOf stepNames cs)) \<and>
      stage_badge_text cs
        = Inr (''Stage '' @ padStart 2 (CHR ''0'') (show_int (indexOf stepNames cs + 1)))"
  proof
    assume nn: "0 \<le> indexOf stepNames cs"
    have "length stepNames = 6" by (simp add: stepNames_def)
    with indexOf_nth [OF nn] nn show "indexOf stepNames cs < 6 \<and>
      cs = JStr (stepNames ! nat (indexOf stepNames cs)) \<and>
      stage_badge_text cs
        = Inr (''Stage '' @ padStart 2 (CHR ''0'') (show_int (indexOf stepNames cs + 1)))"
      by (auto simp: stage_badge_text_def Let_def)
  qed
  have e: "indexOf stepNames cs < 0 \<longrightarrow> stage_badge_text cs = dom_text cs"
    by (simp add: stage_badge_text_def Let_def)
  from a b c d e show ?thesis
    using stage_name_index [of s] badge_texts by blast
qed

theorem six_stages_in_order_witness:
  "0 \<le> indexOf stepNames (JStr ''animation'') \<and>
   indexOf stepNames (JStr ''animation'') = 2 \<and>
   stage_badge_text (JStr ''animation'') = Inr ''Stage 03'' \<and>
   indexOf stepNames (JStr ''queued'') < 0 \<and>
   stage_badge_text (JStr ''queued'') = Inr ''queued''"
proof -
  have i: "indexOf stepNames (JStr ''animation'') = 2" "indexOf stepNames (JStr ''queued'') = - 1"
    by (simp_all add: stepNames_def)
  have p: "''Stage '' @ padStart 2 (CHR ''0'') (show_int (2 + 1)) = ''Stage 03''"
    by code_simp
  have known: "0 \<le> indexOf stepNames (JStr ''animation'') \<longrightarrow>
      stage_badge_text (JStr ''animation'')
        = Inr (''Stage '' @ padStart 2 (CHR ''0'') (show_int (indexOf stepNames (JStr ''animation'') + 1)))"
    using six_stages_in_order [of "[]" 0 "[]" Animation "JStr ''animation''"] by blast
  have unknown: "indexOf stepNames (JStr ''queued'') < 0 \<longrightarrow>
      stage_badge_text (JStr ''queued'') = dom_text (JStr ''queued'')"
    using six_stages_in_order [of "[]" 0 "[]" Animation "JStr ''queued''"] by blast
  from known i(1) p have "stage_badge_text (JStr ''animation'') = Inr ''Stage 03''"
    by simp
  moreover from unknown i(2) have "stage_badge_text (JStr ''queued'') = Inr ''queued''"
    by simp
  ultimately show ?thesis using i by simp
qed

section \<open>The stage index of a job only moves forward\<close>

lemma position_nth:
  "distinct xs \<Longrightarrow> i < length xs \<Longrightarrow> position xs (xs ! i) = int i"
proof (induction xs arbitrary: i)
  case Nil
  then show ?case by simp
next
  case (Cons x xs)
  show ?case
  proof (cases i)
    case 0
    then show ?thesis by simp
  next
    case (Suc k)
    with Cons.prems have k: "k < length xs" and d: "distinct xs" and ne: "x \<noteq> xs ! k"
      by auto
    from Cons.IH [OF d k] Suc ne show ?thesis by (simp add: Let_def)
  qed
qed

lemma run_stages_nonempty: "run_stages handler i ss out j \<noteq> []"
  by (cases ss) (simp_all add: Let_def)

lemma forward_only_Cons:
  "ks \<noteq> [] \<Longrightarrow>
   forward_only (j # ks) \<longleftrightarrow>
     stage_index (currentStage j) \<le> stage_index (currentStage (hd ks))
     \<and> stage_index (currentStage (hd ks)) \<le> stage_index (currentStage j) + 1
     \<and> forward_only ks"
  by (cases ks) simp_all

lemma run_stages_forward:
  assumes "ss = drop i pipeline"
    and "stage_index (currentStage j) < int (length pipeline)"
  shows "forward_only (run_stages handler i ss out j)
     \<and> (\<forall>k \<in> set (run_stages handler i ss out j).
           stage_index (currentStage k) < int (length pipeline))
     \<and> stage_index (currentStage (hd (run_stages handler i ss out j)))
         = (if ss = [] then stage_index (currentStage j) else int i)"
  using assms
proof (induction ss arbitrary: i j out)
  case Nil
  then show ?case by simp
next
  case (Cons s rest)
  from Cons.prems(1) have i: "i < length pipeline"
    by (cases "i < length pipeline") auto
  from Cons.prems(1) i have s: "s = pipeline ! i" and rest: "rest = drop (Suc i) pipeline"
    by (simp_all add: Cons_nth_drop_Suc [symmetric])
  have "distinct pipeline" by (simp add: pipeline_def)
  with i s have idx: "stage_index (AtStage s) = int i"
    by (simp add: position_nth)
  let ?j1 = "j\<lparr>currentStage := AtStage s, job_message := stage_name s,
                 job_progress := i * 100 div length pipeline\<rparr>"
  have j1: "stage_index (currentStage ?j1) = int i"
    using idx by simp
  show ?case
  proof (cases "handler s out")
    case (Inl failure)
    with j1 i show ?thesis by (simp add: Let_def)
  next
    case (Inr next_out)
    let ?tail = "run_stages handler (i + 1) rest next_out ?j1"
    have lt: "stage_index (currentStage ?j1) < int (length pipeline)"
      using j1 i by simp
    from rest have rest': "rest = drop (i + 1) pipeline" by simp
    note ih = Cons.IH [OF rest' lt, of next_out]
    have hd_tail: "stage_index (currentStage (hd ?tail)) = int i
                   \<or> stage_index (currentStage (hd ?tail)) = int i + 1"
      using ih j1 by (cases "rest = []") auto
    have "forward_only (?j1 # ?tail)"
      using ih hd_tail j1 run_stages_nonempty [of handler "i + 1" rest next_out ?j1]
      by (auto simp: forward_only_Cons)
    with Inr ih lt j1 show ?thesis by (simp add: Let_def)
  qed
qed

text \<open>
  C7: over the whole life of a job, from its creation at the sentinel through the
  run of the orchestrator to completion or failure, the index of \<^verbatim>\<open>currentStage\<close>
  in the stage order never decreases, advances by at most one from one record to the
  next (no stage is skipped), and stays below the length of the pipeline.
\<close>

theorem stage_index_forward_only:
  assumes "currentStage j = QueuedStage"
  shows "forward_only (job_history handler source j)
     \<and> sorted (map (\<lambda>k. stage_index (currentStage k)) (job_history handler source j))
     \<and> (\<forall>k \<in> set (job_history handler source j).
           stage_index (currentStage k) < int (length pipeline))"
proof -
  let ?j0 = "j\<lparr>job_status := Running, currentStage := AtStage (hd pipeline), job_progress := 0\<rparr>"
  let ?run = "run_stages handler 0 pipeline source ?j0"
  have j0: "stage_index (currentStage ?j0) = 0"
    by (simp add: pipeline_def)
  have "stage_index (currentStage ?j0) < int (length pipeline)"
    by (simp add: pipeline_def)
  from run_stages_forward [of pipeline 0 ?j0 handler source, OF _ this]
  have run: "forward_only ?run"
    "\<forall>k \<in> set ?run. stage_index (currentStage k) < int (length pipeline)"
    "stage_index (currentStage (hd ?run)) = 0"
    by (simp_all add: pipeline_def)
  have ne: "?run \<noteq> []" by (rule run_stages_nonempty)
  have fwd: "forward_only (j # ?j0 # ?run)"
    using run(1,3) ne j0 assms forward_only_Cons [of ?run ?j0] by simp
  have srt: "sorted (map (\<lambda>k. stage_index (currentStage k)) ks)" if "forward_only ks" for ks
    using that
  proof (induction ks rule: forward_only.induct)
    case 1
    show ?case by simp
  next
    case (2 j)
    show ?case by simp
  next
    case (3 j k rest)
    then have s: "sorted (map (\<lambda>k. stage_index (currentStage k)) (k # rest))"
      and le: "stage_index (currentStage j) \<le> stage_index (currentStage k)"
      by simp_all
    from s le show ?case by (auto simp: order_trans)
  qed
  have bound: "\<forall>k \<in> set (j # ?j0 # ?run). stage_index (currentStage k) < int (length pipeline)"
    using run(2) assms j0 by (simp add: pipeline_def)
  from fwd srt [OF fwd] bound show ?thesis
    by (simp add: job_history_def Let_def)
qed

theorem stage_index_forward_only_witness:
  "currentStage (hd (snd (store_create [(''description'', TextField ''explain photosynthesis'')] 0 [])))
     = QueuedStage \<and>
   forward_only
     (job_history (\<lambda>s out. if s = Narration then Inl ''speech service down'' else Inr (stage_name s))
        ''explain photosynthesis''
        (hd (snd (store_create [(''description'', TextField ''explain photosynthesis'')] 0 [])))) \<and>
   map (\<lambda>k. stage_index (currentStage k))
     (job_history (\<lambda>s out. if s = Narration then Inl ''speech service down'' else Inr (stage_name s))
        ''explain photosynthesis''
        (hd (snd (store_create [(''description'', TextField ''explain photosynthesis'')] 0 []))))
     = [- 1, 0, 0, 1, 2, 3, 3]"
proof -
  let ?j = "hd (snd (store_create [(''description'', TextField ''explain photosynthesis'')] 0 []))"
  have q: "currentStage ?j = QueuedStage"
    by (simp add: store_create_def Let_def)
  have m: "map (\<lambda>k. stage_index (currentStage k))
     (job_history (\<lambda>s out. if s = Narration then Inl ''speech service down'' else Inr (stage_name s))
        ''explain photosynthesis'' ?j) = [- 1, 0, 0, 1, 2, 3, 3]"
    by (simp add: job_history_def pipeline_def store_create_def Let_def)
  from q m show ?thesis
    using stage_index_forward_only
      [OF q, of "\<lambda>s out. if s = Narration then Inl ''speech service down'' else Inr (stage_name s)"
          "''explain photosynthesis''"]
    by simp
qed


section \<open>Unknown step names\<close>

lemma shown_text_append:
  "shown_text ident (xs @ ys) =
     (case shown_text ident ys of Some t \<Rightarrow> Some t | None \<Rightarrow> shown_text ident xs)"
  by (induction xs) (auto split: option.splits)

lemma status_writes_ok:
  assumes "printable (read_prop data ''progress'')"
    and "printable (read_prop data ''current_step'')"
    and "printable (read_prop data ''message'')"
  obtains a b c where "update_progress doc (read_prop data ''progress'') = Inr a"
    and "write_stage_badge doc (read_prop data ''current_step'') = Inr b"
    and "write_status_label doc (read_prop data ''message'') = Inr c"
    and "status_writes doc data = (a @ b @ c, None)"
proof -
  obtain a b c where abc: "update_progress doc (read_prop data ''progress'') = Inr a"
    "write_stage_badge doc (read_prop data ''current_step'') = Inr b"
    "write_status_label doc (read_prop data ''message'') = Inr c"
    using update_progress_printable [OF assms(1)] write_stage_badge_printable [OF assms(2)]
      write_status_label_printable [OF assms(3)]
    by blast
  then have "status_writes doc data = (a @ b @ c, None)"
    by (simp add: status_writes_def)
  with abc show ?thesis by (rule that)
qed

lemma no_step_write_status_writes: "filter step_write (fst (status_writes doc data)) = []"
proof -
  have "\<forall>e \<in> set (fst (status_writes doc data)). \<not> step_write e"
    unfolding status_writes_def
  proof (rule in_sequence_all)
    fix es
    assume "Inr es \<in> set [update_progress doc (read_prop data ''progress''),
                           write_stage_badge doc (read_prop data ''current_step''),
                           write_status_label doc (read_prop data ''message'')]"
    then have "update_progress doc (read_prop data ''progress'') = Inr es
        \<or> write_stage_badge doc (read_prop data ''current_step'') = Inr es
        \<or> write_status_label doc (read_prop data ''message'') = Inr es"
      by auto
    then show "\<forall>e \<in> set es. \<not> step_write e"
      by (auto simp: update_progress_def write_stage_badge_def write_status_label_def stepIds_def
          split: if_splits sum.splits)
  qed
  then show ?thesis by (simp add: filter_empty_conv)
qed

lemma step_write_mark_all_complete: "\<forall>e \<in> set (mark_all_complete doc). step_write e"
  by (auto simp: mark_all_complete_def undim_def split: option.splits)

lemma filter_step_write_addTerminalLine: "filter step_write (addTerminalLine doc tag m b) = []"
  by (simp add: addTerminalLine_def)

lemma updatePipelineStep_unknown: "indexOf stepNames cs < 0 \<Longrightarrow> updatePipelineStep doc cs = []"
  by (simp add: updatePipelineStep_def Let_def)

lemma visualization_queued: "update_visualization doc vars (JStr ''queued'') = (vars, [])"
  by (simp add: update_visualization_def)

lemma write_stage_badge_unknown_name:
  "indexOf stepNames (JStr name) < 0 \<Longrightarrow>
   write_stage_badge doc (JStr name) =
     Inr (if stage_badge doc then [DomWrite (Elem ''stage-badge'') ''textContent'' name] else [])"
  by (simp add: write_stage_badge_def stage_badge_text_def Let_def)

lemma shown_badge_update_progress:
  "update_progress doc p = Inr es \<Longrightarrow> shown_text ''stage-badge'' es = None"
  by (auto simp: update_progress_def split: if_splits sum.splits)

lemma shown_badge_write_status_label:
  "write_status_label doc m = Inr es \<Longrightarrow> shown_text ''stage-badge'' es = None"
  by (auto simp: write_status_label_def split: if_splits sum.splits)

text \<open>
  C9: \<^verbatim>\<open>updatePipelineStep\<close> with a step that is not one of the six stage names
  (the sentinel \<^verbatim>\<open>queued\<close>, for one) has no effect at all, so it changes no step
  element; the visualization block of the poll handler has no effect and leaves
  \<^verbatim>\<open>lastStep\<close> alone while \<^verbatim>\<open>current_step\<close> is \<^verbatim>\<open>queued\<close>; and for a step that is not
  a stage name the badge write takes the raw \<^verbatim>\<open>current_step\<close>, so that a step name
  is written to the stage badge as it is.  Over a whole poll of a job that reports
  \<^verbatim>\<open>queued\<close> and is neither completed nor failed, no step element is written to, no
  stage line is logged, and the stage badge shows \<^verbatim>\<open>queued\<close>.
\<close>

theorem unknown_step_is_not_visualized:
  "(indexOf stepNames cs < 0 \<longrightarrow> updatePipelineStep doc cs = []) \<and>
   update_visualization doc vars (JStr ''queued'') = (vars, []) \<and>
   (indexOf stepNames cs < 0 \<longrightarrow> stage_badge_text cs = dom_text cs) \<and>
   (indexOf stepNames (JStr name) < 0 \<longrightarrow>
      write_stage_badge doc (JStr name) =
        Inr (if stage_badge doc then [DomWrite (Elem ''stage-badge'') ''textContent'' name] else [])) \<and>
   (res_ok code \<and> printable_status data
      \<and> read_prop data ''current_step'' = JStr ''queued''
      \<and> read_prop data ''status'' \<noteq> JStr ''completed''
      \<and> read_prop data ''status'' \<noteq> JStr ''failed'' \<longrightarrow>
      filter step_write (snd (pollStatus base jobId doc vars (Response code (Inr data)))) = [] \<and>
      shown_text ''stage-badge'' (snd (pollStatus base jobId doc vars (Response code (Inr data))))
        = (if stage_badge doc then Some ''queued'' else None) \<and>
      terminal_lines ''Pipeline'' (snd (pollStatus base jobId doc vars (Response code (Inr data)))) = [] \<and>
      terminal_lines ''Success'' (snd (pollStatus base jobId doc vars (Response code (Inr data)))) = [] \<and>
      lastStep (fst (pollStatus base jobId doc vars (Response code (Inr data)))) = lastStep vars)"
proof -
  let ?poll = "pollStatus base jobId doc vars (Response code (Inr data))"
  have a: "indexOf stepNames cs < 0 \<longrightarrow> updatePipelineStep doc cs = []"
    by (simp add: updatePipelineStep_unknown)
  have c: "indexOf stepNames cs < 0 \<longrightarrow> stage_badge_text cs = dom_text cs"
    by (simp add: stage_badge_text_def Let_def)
  have d: "indexOf stepNames (JStr name) < 0 \<longrightarrow>
      write_stage_badge doc (JStr name) =
        Inr (if stage_badge doc then [DomWrite (Elem ''stage-badge'') ''textContent'' name] else [])"
    by (simp add: write_stage_badge_unknown_name)
  have e: "filter step_write (snd ?poll) = [] \<and>
      shown_text ''stage-badge'' (snd ?poll) = (if stage_badge doc then Some ''queued'' else None) \<and>
      terminal_lines ''Pipeline'' (snd ?poll) = [] \<and>
      terminal_lines ''Success'' (snd ?poll) = [] \<and>
      lastStep (fst ?poll) = lastStep vars"
    if ok: "res_ok code" and p: "printable_status data"
      and q: "read_prop data ''current_step'' = JStr ''queued''"
      and s: "read_prop data ''status'' \<noteq> JStr ''completed''"
             "read_prop data ''status'' \<noteq> JStr ''failed''"
  proof -
    from q have nn: "data \<noteq> JNull" "data \<noteq> JUndefined"
      by (auto simp: read_prop_def)
    from p obtain x y z where
      x: "update_progress doc (read_prop data ''progress'') = Inr x"
      and y: "write_stage_badge doc (read_prop data ''current_step'') = Inr y"
      and z: "write_status_label doc (read_prop data ''message'') = Inr z"
      and w: "status_writes doc data = (x @ y @ z, None)"
      by (auto simp: printable_status_def elim: status_writes_ok [of data doc])
    have unknown: "indexOf stepNames (JStr ''queued'') < 0"
      by (simp add: stepNames_def)
    from y q have y': "y = (if stage_badge doc
                            then [DomWrite (Elem ''stage-badge'') ''textContent'' ''queued''] else [])"
      by (simp add: write_stage_badge_unknown_name [OF unknown])
    from s have t: "check_terminal doc (read_prop data ''status'') (read_prop data ''error'')
        (read_prop data ''message'') = Inr [SetTimeout PollStatus 3000]"
      by (simp add: check_terminal_def strict_eq_JStr)
    from w have w': "snd (status_writes doc data) = None" "fst (status_writes doc data) = x @ y @ z"
      by simp_all
    have poll: "?poll = (vars\<lparr>pollCount := pollCount vars + 1\<rparr>,
        Request (GET (base @ ''/api/status/'' @ jobId)) # (x @ y @ z) @ [SetTimeout PollStatus 3000])"
      by (simp add: pollStatus_parsed [OF ok nn w'(1)] w'(2) q visualization_queued t)
    have nsw: "filter step_write (x @ y @ z) = []"
      using no_step_write_status_writes [of doc data] w'(2) by simp
    have lines: "terminal_lines tag (x @ y @ z) = []" for tag
      using dom_writes_terminal_lines [OF dw_status_writes [of doc data], of tag] w'(2) by simp
    have shown: "shown_text ''stage-badge'' (x @ y @ z)
                   = (if stage_badge doc then Some ''queued'' else None)"
      using shown_badge_update_progress [OF x] shown_badge_write_status_label [OF z]
      by (simp add: shown_text_append y')
    from nsw lines shown show ?thesis
      by (simp add: poll shown_text_append terminal_lines_append del: append_assoc)
  qed
  from a c d e show ?thesis
    using visualization_queued by blast
qed

theorem unknown_step_is_not_visualized_witness:
  "indexOf stepNames (JStr ''queued'') < 0 \<and> res_ok 200 \<and>
   printable_status (JObj [(''status'', JStr ''queued''), (''current_step'', JStr ''queued''),
                           (''progress'', JNum 0), (''message'', JStr ''Job queued'')]) \<and>
   updatePipelineStep full_process_dom (JStr ''queued'') = [] \<and>
   write_stage_badge full_process_dom (JStr ''queued'')
     = Inr [DomWrite (Elem ''stage-badge'') ''textContent'' ''queued''] \<and>
   filter step_write
     (snd (pollStatus [] ''job-1'' full_process_dom \<lparr>lastStep = JStr [], pollCount = 0\<rparr>
        (Response 200 (Inr (JObj [(''status'', JStr ''queued''), (''current_step'', JStr ''queued''),
                                  (''progress'', JNum 0), (''message'', JStr ''Job queued'')])))))
     = [] \<and>
   shown_text ''stage-badge''
     (snd (pollStatus [] ''job-1'' full_process_dom \<lparr>lastStep = JStr [], pollCount = 0\<rparr>
        (Response 200 (Inr (JObj [(''status'', JStr ''queued''), (''current_step'', JStr ''queued''),
                                  (''progress'', JNum 0), (''message'', JStr ''Job queued'')])))))
     = Some ''queued'' \<and>
   lastStep (fst (pollStatus [] ''job-1'' full_process_dom \<lparr>lastStep = JStr [], pollCount = 0\<rparr>
        (Response 200 (Inr (JObj [(''status'', JStr ''queued''), (''current_step'', JStr ''queued''),
                                  (''progress'', JNum 0), (''message'', JStr ''Job queued'')])))))
     = JStr []"
proof -
  let ?queued = "JObj [(''status'', JStr ''queued''), (''current_step'', JStr ''queued''),
                       (''progress'', JNum 0), (''message'', JStr ''Job queued'')]"
  have i: "indexOf stepNames (JStr ''queued'') < 0"
    by (simp add: stepNames_def)
  have r: "read_prop ?queued ''current_step'' = JStr ''queued''"
    "read_prop ?queued ''status'' = JStr ''queued''"
    by (simp_all add: read_prop_def)
  have p: "printable_status ?queued"
    by (simp add: printable_status_def printable_def read_prop_def)
  have ok: "res_ok 200" by (simp add: res_ok_def)
  have b: "stage_badge full_process_dom" by (simp add: full_process_dom_def)
  show ?thesis
    using i r p ok b
      unknown_step_is_not_visualized
        [of "JStr ''queued''" full_process_dom "\<lparr>lastStep = JStr [], pollCount = 0\<rparr>"
            "''queued''" 200 ?queued "[]" "''job-1''"]
    by simp
qed

section \<open>Stage lines of the terminal log\<close>
















end
